theory Spec2Isabelle
  imports Complex_Main
begin

section \<open>DocVector vector-store layer: shallow embedding\<close>

text \<open>
  The program is the Python of the vector-store workstream as it is written in
  \<^verbatim>\<open>src/epic.md\<close>: the embedded (ChromaDB) adapter, the remote (Qdrant)
  adapter, and the configuration validator with its factory.

  Conventions of the embedding:
  \<^item> a Python \<^verbatim>\<open>float\<close> is a \<^typ>\<open>real\<close>: the arithmetic of the model is exact,
    rounding is not modelled;
  \<^item> a Python \<^verbatim>\<open>str\<close> is a \<^typ>\<open>string\<close>, \<^verbatim>\<open>Optional[T]\<close> is \<^typ>\<open>'a option\<close>;
  \<^item> a raised exception is the \<open>Inl\<close> of a sum, a returned value its \<open>Inr\<close>;
  \<^item> a leading underscore of a Python name is dropped
    (\<^verbatim>\<open>_distance_to_score\<close> is \<open>distance_to_score\<close>).
\<close>

subsection \<open>Exceptions\<close>

text \<open>
  \<open>BackendError\<close> stands for any exception raised inside the external engine or its
  client library (qdrant-client, chromadb); the adapters never construct it themselves.
  The other constructors are the exceptions the code of the repository raises, or that
  Python raises while running it.
\<close>

datatype backend_failure =
    UnexpectedResponse nat string
  | ConnectionFailure string

datatype py_error =
    ValueError string
  | RuntimeError string
  | AttributeError string
  | UnboundLocalError string
  | ZeroDivisionError string
  | TypeError string
  | KeyError string
  | VectorDBConfigurationError string
  | BackendError backend_failure

subsection \<open>Strings\<close>

text \<open>\<^verbatim>\<open>str.lower()\<close> on the ASCII letters; every other character is kept.\<close>

definition lower_char :: "char \<Rightarrow> char" where
  "lower_char c =
     (case map_of (zip ''ABCDEFGHIJKLMNOPQRSTUVWXYZ'' ''abcdefghijklmnopqrstuvwxyz'') c of
        None \<Rightarrow> c
      | Some l \<Rightarrow> l)"

definition lower :: "string \<Rightarrow> string" where
  "lower s = map lower_char s"

subsection \<open>Embedded adapter: metric mapping and score normalisation\<close>

text \<open>
  \<^verbatim>\<open>metric_map = {"cosine": "cosine", "euclidean": "l2", "dot": "ip"}\<close> as an
  association list, and \<^verbatim>\<open>metric_map.get(distance_metric.lower(), "cosine")\<close>.
\<close>

definition metric_map :: "(string \<times> string) list" where
  "metric_map = [(''cosine'', ''cosine''), (''euclidean'', ''l2''), (''dot'', ''ip'')]"

definition mapped_metric :: "string \<Rightarrow> string" where
  "mapped_metric distance_metric =
     (case map_of metric_map (lower distance_metric) of
        None \<Rightarrow> ''cosine''
      | Some m \<Rightarrow> m)"



subsection \<open>Adapter objects\<close>

text \<open>
  The two adapters as their \<^verbatim>\<open>__init__\<close> leaves them. The client handle is absent
  (\<open>None\<close>) until \<^verbatim>\<open>initialize()\<close> stores one; \<open>'c\<close> and \<open>'q\<close> are the types of the
  ChromaDB and Qdrant client handles. ChromaDB's private field \<^verbatim>\<open>_client\<close> is
  \<open>client'\<close>, Qdrant's public field \<^verbatim>\<open>client\<close> is \<open>client\<close>.
\<close>

record settings =
  mcp_mode :: string
  chroma_persist_directory :: string
  qdrant_url :: "string option"
  qdrant_api_key :: "string option"
  qdrant_host :: "string option"
  qdrant_port :: "int option"
  qdrant_grpc_port :: "int option"
  qdrant_use_grpc :: bool

record 'c ChromaVectorDB =
  persist_directory :: string
  client' :: "'c option"

record 'q QdrantVectorDB =
  url :: "string option"
  api_key :: "string option"
  host :: "string option"
  port :: "int option"
  grpc_port :: "int option"
  use_grpc :: bool
  client :: "'q option"

datatype ('c, 'q) IVectorStore =
    Chroma "'c ChromaVectorDB"
  | Qdrant "'q QdrantVectorDB"

text \<open>Python truthiness of an optional string and of an optional integer.\<close>

definition truthy :: "string option \<Rightarrow> bool" where
  "truthy v = (case v of None \<Rightarrow> False | Some s \<Rightarrow> s \<noteq> [])"

definition truthy_int :: "int option \<Rightarrow> bool" where
  "truthy_int v = (case v of None \<Rightarrow> False | Some i \<Rightarrow> i \<noteq> 0)"

text \<open>\<^verbatim>\<open>a or b\<close> on optional strings and on optional integers.\<close>

definition or_str :: "string option \<Rightarrow> string option \<Rightarrow> string option" where
  "or_str a b = (if truthy a then a else b)"

definition or_int :: "int option \<Rightarrow> int option \<Rightarrow> int option" where
  "or_int a b = (if truthy_int a then a else b)"

text \<open>
  \<^verbatim>\<open>ChromaVectorDB.__init__(persist_directory=None)\<close>:
  \<^verbatim>\<open>self.persist_directory = persist_directory or settings.chroma_persist_directory\<close>,
  \<^verbatim>\<open>self._client = None\<close>.
\<close>

definition ChromaVectorDB_init :: "settings \<Rightarrow> string option \<Rightarrow> 'c ChromaVectorDB" where
  "ChromaVectorDB_init s persist_directory_arg =
     \<lparr> persist_directory =
         (case persist_directory_arg of
            None \<Rightarrow> chroma_persist_directory s
          | Some p \<Rightarrow> if p \<noteq> [] then p else chroma_persist_directory s),
       client' = None \<rparr>"

text \<open>\<^verbatim>\<open>QdrantVectorDB.__init__(host, port, grpc_port, use_grpc, url, api_key)\<close>.\<close>

definition QdrantVectorDB_init ::
  "settings \<Rightarrow> string option \<Rightarrow> int option \<Rightarrow> int option \<Rightarrow> bool option \<Rightarrow>
   string option \<Rightarrow> string option \<Rightarrow> 'q QdrantVectorDB" where
  "QdrantVectorDB_init s host_arg port_arg grpc_port_arg use_grpc_arg url_arg api_key_arg =
     \<lparr> url = or_str url_arg (qdrant_url s),
       api_key = or_str api_key_arg (qdrant_api_key s),
       host = or_str host_arg (qdrant_host s),
       port = or_int port_arg (qdrant_port s),
       grpc_port = or_int grpc_port_arg (qdrant_grpc_port s),
       use_grpc = (case use_grpc_arg of Some b \<Rightarrow> b | None \<Rightarrow> qdrant_use_grpc s),
       client = None \<rparr>"

subsection \<open>Configuration validation and the factory\<close>

text \<open>
  What the validator asks of the filesystem: \<^verbatim>\<open>os.path.exists(p)\<close> and
  \<^verbatim>\<open>os.access(p, os.W_OK)\<close>.
\<close>

record filesystem =
  path_exists :: "string \<Rightarrow> bool"
  access_W_OK :: "string \<Rightarrow> bool"

text \<open>
  \<^verbatim>\<open>os.path.dirname\<close> of \<^verbatim>\<open>posixpath\<close>: the text up to and including the last
  \<^verbatim>\<open>/\<close>, with trailing slashes stripped unless it consists of slashes only.
\<close>

definition dirname :: "string \<Rightarrow> string" where
  "dirname p =
     (let head = rev (dropWhile (\<lambda>c. c \<noteq> CHR ''/'') (rev p))
      in if head \<noteq> [] \<and> head \<noteq> replicate (length head) (CHR ''/'')
         then rev (dropWhile (\<lambda>c. c = CHR ''/'') (rev head))
         else head)"

text \<open>\<^verbatim>\<open>str(n)\<close> of an integer, and of a port setting that is not an integer.\<close>

fun str_nat :: "nat \<Rightarrow> string" where
  "str_nat n =
     (if n < 10 then [''0123456789'' ! n]
      else str_nat (n div 10) @ [''0123456789'' ! (n mod 10)])"

declare str_nat.simps [simp del]

definition str_int :: "int \<Rightarrow> string" where
  "str_int i = (if i < 0 then ''-'' @ str_nat (nat (- i)) else str_nat (nat i))"

definition str_port :: "int option \<Rightarrow> string" where
  "str_port v = (case v of None \<Rightarrow> ''None'' | Some i \<Rightarrow> str_int i)"

text \<open>\<^verbatim>\<open>os.path.dirname(persist_dir) or "."\<close>.\<close>

definition parent_dir_of :: "string \<Rightarrow> string" where
  "parent_dir_of persist_dir =
     (if dirname persist_dir \<noteq> [] then dirname persist_dir else ''.'')"

text \<open>
  \<^verbatim>\<open>_validate_chroma_config()\<close>. The settings and the filesystem, ambient in the
  Python, are arguments. \<open>Inr ()\<close> is the normal return.
\<close>

definition validate_chroma_config :: "filesystem \<Rightarrow> settings \<Rightarrow> py_error + unit" where
  "validate_chroma_config fs s =
     (let persist_dir = chroma_persist_directory s in
      if persist_dir = [] then
        Inl (VectorDBConfigurationError
          (''ChromaDB persist directory not configured. '' @
           ''Set DOCVECTOR_CHROMA_PERSIST_DIRECTORY environment variable.''))
      else
        let parent_dir = parent_dir_of persist_dir in
        if path_exists fs parent_dir \<and> \<not> access_W_OK fs parent_dir then
          Inl (VectorDBConfigurationError
            (''ChromaDB persist directory parent '' @ [CHR 0x27] @ parent_dir @ [CHR 0x27] @
             '' is not writable. '' @ ''Check file permissions.''))
        else Inr ())"

text \<open>
  \<^verbatim>\<open>_validate_qdrant_config()\<close>. \<^verbatim>\<open>qdrant_port\<close> is \<open>Some i\<close> for an integer and
  \<open>None\<close> for anything that fails \<^verbatim>\<open>isinstance(settings.qdrant_port, int)\<close>.
\<close>

definition validate_qdrant_config :: "settings \<Rightarrow> py_error + unit" where
  "validate_qdrant_config s =
     (if truthy (qdrant_url s) \<and> truthy (qdrant_api_key s) then Inr ()
      else if truthy (qdrant_url s) then
        Inl (VectorDBConfigurationError
          (''Qdrant URL provided but API key missing. '' @
           ''Set DOCVECTOR_QDRANT_API_KEY for cloud deployment.''))
      else if truthy (qdrant_api_key s) then
        Inl (VectorDBConfigurationError
          (''Qdrant API key provided but URL missing. '' @
           ''Set DOCVECTOR_QDRANT_URL for cloud deployment.''))
      else if \<not> truthy (qdrant_host s) then
        Inl (VectorDBConfigurationError
          (''Qdrant host not configured. '' @
           ''Set DOCVECTOR_QDRANT_HOST or DOCVECTOR_QDRANT_URL.''))
      else if (case qdrant_port s of None \<Rightarrow> True | Some i \<Rightarrow> i \<le> 0) then
        Inl (VectorDBConfigurationError
          (''Invalid Qdrant port: '' @ str_port (qdrant_port s) @ ''. '' @
           ''Must be a positive integer.''))
      else Inr ())"

text \<open>\<^verbatim>\<open>str(e)\<close> of an exception, as the factory's last handler formats it.\<close>

fun error_text :: "py_error \<Rightarrow> string" where
  "error_text (ValueError m) = m"
| "error_text (RuntimeError m) = m"
| "error_text (AttributeError m) = m"
| "error_text (UnboundLocalError m) = m"
| "error_text (ZeroDivisionError m) = m"
| "error_text (TypeError m) = m"
| "error_text (KeyError m) = m"
| "error_text (VectorDBConfigurationError m) = m"
| "error_text (BackendError (UnexpectedResponse code m)) = m"
| "error_text (BackendError (ConnectionFailure m)) = m"

text \<open>
  \<^verbatim>\<open>get_vector_db(mode=None)\<close>. The mode check raises \<^verbatim>\<open>ValueError\<close> outside the
  \<^verbatim>\<open>try\<close>; inside it a \<^verbatim>\<open>VectorDBConfigurationError\<close> is re-raised as it is and
  any other exception is wrapped into one.
\<close>

definition get_vector_db ::
  "filesystem \<Rightarrow> settings \<Rightarrow> string option \<Rightarrow> py_error + ('c, 'q) IVectorStore" where
  "get_vector_db fs s mode =
     (let effective_mode =
        (case mode of
           None \<Rightarrow> mcp_mode s
         | Some m \<Rightarrow> if m \<noteq> [] then m else mcp_mode s) in
      if effective_mode \<notin> set [''local'', ''cloud'', ''hybrid''] then
        Inl (ValueError (''Invalid mode: '' @ [CHR 0x27] @ effective_mode @ [CHR 0x27]))
      else
        let attempt =
          (if effective_mode = ''local'' then
             (case validate_chroma_config fs s of
                Inl e \<Rightarrow> Inl e
              | Inr _ \<Rightarrow> Inr (Chroma (ChromaVectorDB_init s (Some (chroma_persist_directory s)))))
           else
             (case validate_qdrant_config s of
                Inl e \<Rightarrow> Inl e
              | Inr _ \<Rightarrow>
                  if truthy (qdrant_url s) \<and> truthy (qdrant_api_key s) then
                    Inr (Qdrant (QdrantVectorDB_init s None None None None
                                   (qdrant_url s) (qdrant_api_key s)))
                  else
                    Inr (Qdrant (QdrantVectorDB_init s (qdrant_host s) (qdrant_port s) None
                                   (Some (qdrant_use_grpc s)) None None))))
        in (case attempt of
              Inl (VectorDBConfigurationError m) \<Rightarrow> Inl (VectorDBConfigurationError m)
            | Inl e \<Rightarrow>
                Inl (VectorDBConfigurationError
                       (''Failed to create vector database: '' @ error_text e))
            | Inr db \<Rightarrow> Inr db))"

subsection \<open>Remote adapter\<close>

text \<open>
  What the adapter uses of \<^verbatim>\<open>qdrant_client.models\<close>: the distance enumeration, the
  vector configuration of a collection (\<^verbatim>\<open>info.config.params.vectors\<close>, a single
  \<^verbatim>\<open>VectorParams\<close> or some other shape such as a dictionary of named vectors), the
  point count, and the two selectors of a delete request.
\<close>

datatype Distance = COSINE | EUCLID | DOT | MANHATTAN

datatype vectors_config = VectorParams int Distance | OtherVectorsConfig

record CollectionInfo =
  config_params_vectors :: vectors_config
  points_count :: "int option"

datatype 'f PointsSelector = PointIdsList "string list" | FilterSelector 'f

text \<open>
  The client \<^verbatim>\<open>AsyncQdrantClient\<close> is external: it is a parameter of the model, a
  pair of operations on the state \<open>'s\<close> of the remote service. Reading a collection
  does not change that state; a delete request returns the state it leaves behind,
  whatever that is (other writers may be at work). A failure of the client is a
  \<^typ>\<open>backend_failure\<close>, which reaches the caller as \<open>BackendError\<close>.
\<close>

record ('s, 'f) AsyncQdrantClient =
  q_get_collection :: "'s \<Rightarrow> string \<Rightarrow> backend_failure + CollectionInfo"
  q_delete :: "'s \<Rightarrow> string \<Rightarrow> 'f PointsSelector \<Rightarrow> (backend_failure + unit) \<times> 's"

text \<open>
  \<^verbatim>\<open>distance_map.get(distance_metric.lower(), models.Distance.COSINE)\<close> of the
  remote adapter's \<^verbatim>\<open>create_collection\<close>.
\<close>

definition distance_map :: "(string \<times> Distance) list" where
  "distance_map = [(''cosine'', COSINE), (''euclidean'', EUCLID), (''dot'', DOT)]"

definition distance_metric_val :: "string \<Rightarrow> Distance" where
  "distance_metric_val distance_metric =
     (case map_of distance_map (lower distance_metric) of
        None \<Rightarrow> COSINE
      | Some d \<Rightarrow> d)"

text \<open>\<^verbatim>\<open>str(d)\<close> of a member of the enumeration, and Python's \<^verbatim>\<open>sub in s\<close>.\<close>

fun str_Distance :: "Distance \<Rightarrow> string" where
  "str_Distance COSINE = ''Distance.COSINE''"
| "str_Distance EUCLID = ''Distance.EUCLID''"
| "str_Distance DOT = ''Distance.DOT''"
| "str_Distance MANHATTAN = ''Distance.MANHATTAN''"

fun starts_with :: "string \<Rightarrow> string \<Rightarrow> bool" where
  "starts_with [] s = True"
| "starts_with (p # ps) [] = False"
| "starts_with (p # ps) (c # cs) = (p = c \<and> starts_with ps cs)"

fun contains :: "string \<Rightarrow> string \<Rightarrow> bool" where
  "contains sub [] = (sub = [])"
| "contains sub (c # cs) = (starts_with sub (c # cs) \<or> contains sub cs)"

text \<open>The dictionary that \<^verbatim>\<open>get_collection_info\<close> returns.\<close>

record collection_info_dict =
  info_name :: string
  info_dimension :: int
  info_vector_count :: "int option"
  info_distance_metric :: string

text \<open>
  Using a method of \<^verbatim>\<open>self.client\<close> while it is still \<^verbatim>\<open>None\<close> raises
  \<^verbatim>\<open>AttributeError\<close>.
\<close>

definition none_has_no_attribute :: "string \<Rightarrow> py_error" where
  "none_has_no_attribute attr =
     AttributeError
       ([CHR 0x27] @ ''NoneType'' @ [CHR 0x27] @ '' object has no attribute '' @
        [CHR 0x27] @ attr @ [CHR 0x27])"

text \<open>
  The body of the \<^verbatim>\<open>try\<close> of \<^verbatim>\<open>QdrantVectorDB.get_collection_info\<close>. When the
  vector configuration is not a \<^verbatim>\<open>VectorParams\<close>, \<^verbatim>\<open>dimension\<close> is never assigned
  and building the dictionary raises \<^verbatim>\<open>UnboundLocalError\<close>.
\<close>

definition get_collection_info_try ::
  "('s, 'f) AsyncQdrantClient QdrantVectorDB \<Rightarrow> 's \<Rightarrow> string \<Rightarrow> py_error + collection_info_dict" where
  "get_collection_info_try db st nm =
     (case client db of
        None \<Rightarrow> Inl (none_has_no_attribute ''get_collection'')
      | Some c \<Rightarrow>
          (case q_get_collection c st nm of
             Inl failure \<Rightarrow> Inl (BackendError failure)
           | Inr info \<Rightarrow>
               (case config_params_vectors info of
                  VectorParams vsize distance \<Rightarrow>
                    (let dm0 = lower (str_Distance distance);
                         dm1 = (if contains ''cosine'' dm0 then ''cosine'' else dm0);
                         dm2 = (if contains ''euclid'' dm1 then ''euclidean'' else dm1)
                     in Inr \<lparr> info_name = nm, info_dimension = vsize,
                              info_vector_count = points_count info,
                              info_distance_metric = dm2 \<rparr>)
                | OtherVectorsConfig \<Rightarrow>
                    Inl (UnboundLocalError ''dimension''))))"

text \<open>
  \<^verbatim>\<open>QdrantVectorDB.get_collection_info\<close>: the \<^verbatim>\<open>try\<close> with its
  \<^verbatim>\<open>except Exception: return None\<close>.
\<close>

definition get_collection_info ::
  "('s, 'f) AsyncQdrantClient QdrantVectorDB \<Rightarrow> 's \<Rightarrow> string \<Rightarrow>
     py_error + collection_info_dict option" where
  "get_collection_info db st nm =
     (case get_collection_info_try db st nm of
        Inl e \<Rightarrow> Inr None
      | Inr d \<Rightarrow> Inr (Some d))"

text \<open>\<^verbatim>\<open>info.points_count or 0\<close>.\<close>

definition or_zero :: "int option \<Rightarrow> int" where
  "or_zero v = (case v of None \<Rightarrow> 0 | Some n \<Rightarrow> n)"

text \<open>
  The two conditional blocks of \<^verbatim>\<open>QdrantVectorDB.delete\<close>. A filter is a Python
  dictionary, here an association list; \<^verbatim>\<open>if ids:\<close> and \<^verbatim>\<open>if filters:\<close> are
  false for \<^verbatim>\<open>None\<close> and for an empty list or dictionary. The adapter's
  \<^verbatim>\<open>_build_filter\<close> is not part of the sources: it is the parameter \<open>build_filter\<close>.
\<close>

definition delete_by_ids ::
  "('s, 'f) AsyncQdrantClient \<Rightarrow> string \<Rightarrow> string list option \<Rightarrow> 's \<Rightarrow> (py_error + unit) \<times> 's" where
  "delete_by_ids c collection ids st =
     (case ids of
        None \<Rightarrow> (Inr (), st)
      | Some [] \<Rightarrow> (Inr (), st)
      | Some (i # rest) \<Rightarrow>
          (case q_delete c st collection (PointIdsList (i # rest)) of
             (Inl failure, st') \<Rightarrow> (Inl (BackendError failure), st')
           | (Inr u, st') \<Rightarrow> (Inr (), st')))"

definition delete_by_filter ::
  "((string \<times> 'v) list \<Rightarrow> 'f) \<Rightarrow> ('s, 'f) AsyncQdrantClient \<Rightarrow> string \<Rightarrow>
     (string \<times> 'v) list option \<Rightarrow> 's \<Rightarrow> (py_error + unit) \<times> 's" where
  "delete_by_filter build_filter c collection filters st =
     (case filters of
        None \<Rightarrow> (Inr (), st)
      | Some [] \<Rightarrow> (Inr (), st)
      | Some (kv # rest) \<Rightarrow>
          (case q_delete c st collection (FilterSelector (build_filter (kv # rest))) of
             (Inl failure, st') \<Rightarrow> (Inl (BackendError failure), st')
           | (Inr u, st') \<Rightarrow> (Inr (), st')))"

text \<open>
  \<^verbatim>\<open>QdrantVectorDB.delete(collection, ids=None, filters=None)\<close>: the result or the
  exception, and the state of the remote service afterwards.
\<close>

definition delete ::
  "((string \<times> 'v) list \<Rightarrow> 'f) \<Rightarrow> ('s, 'f) AsyncQdrantClient QdrantVectorDB \<Rightarrow> string \<Rightarrow>
     string list option \<Rightarrow> (string \<times> 'v) list option \<Rightarrow> 's \<Rightarrow> (py_error + int) \<times> 's" where
  "delete build_filter db collection ids filters st =
     (if ids = None \<and> filters = None then
        (Inl (ValueError ''Either ids or filters must be provided''), st)
      else
        (case client db of
           None \<Rightarrow> (Inl (none_has_no_attribute ''get_collection''), st)
         | Some c \<Rightarrow>
             (case q_get_collection c st collection of
                Inl failure \<Rightarrow> (Inl (BackendError failure), st)
              | Inr pre_info \<Rightarrow>
                  (let pre_count = or_zero (points_count pre_info) in
                   case delete_by_ids c collection ids st of
                     (Inl e, st1) \<Rightarrow> (Inl e, st1)
                   | (Inr u, st1) \<Rightarrow>
                       (case delete_by_filter build_filter c collection filters st1 of
                          (Inl e, st2) \<Rightarrow> (Inl e, st2)
                        | (Inr u, st2) \<Rightarrow>
                            (case q_get_collection c st2 collection of
                               Inl failure \<Rightarrow> (Inl (BackendError failure), st2)
                             | Inr post_info \<Rightarrow>
                                 (let post_count = or_zero (points_count post_info)
                                  in (Inr (max 0 (pre_count - post_count)), st2))))))))"

subsection \<open>Embedded adapter: collections\<close>

text \<open>
  The ChromaDB client is external as well: a parameter of the model, with the state
  \<open>'s\<close> of the persisted store. Collection metadata is a Python dictionary with string
  and integer values.
\<close>

datatype meta_value = MStr string | MInt int

type_synonym metadata = "(string \<times> meta_value) list"

record chroma_collection =
  coll_metadata :: metadata
  coll_count :: int

record 's ClientAPI =
  c_create_collection :: "'s \<Rightarrow> string \<Rightarrow> metadata \<Rightarrow> (backend_failure + unit) \<times> 's"
  c_get_collection :: "'s \<Rightarrow> string \<Rightarrow> backend_failure + chroma_collection"

text \<open>
  \<^verbatim>\<open>ChromaVectorDB.create_collection(name, dimension, distance_metric="cosine")\<close>:
  the metric is mapped, then the client creates the collection with the metadata
  \<^verbatim>\<open>{"hnsw:space": mapped_metric, "dimension": dimension}\<close>.
\<close>

definition create_collection ::
  "'s ClientAPI ChromaVectorDB \<Rightarrow> string \<Rightarrow> int \<Rightarrow> string \<Rightarrow> 's \<Rightarrow> (py_error + unit) \<times> 's" where
  "create_collection db nm dimension distance_metric st =
     (let m = mapped_metric distance_metric in
      case client' db of
        None \<Rightarrow> (Inl (none_has_no_attribute ''create_collection''), st)
      | Some c \<Rightarrow>
          (case c_create_collection c st nm
                  [(''hnsw:space'', MStr m), (''dimension'', MInt dimension)] of
             (Inl failure, st') \<Rightarrow> (Inl (BackendError failure), st')
           | (Inr u, st') \<Rightarrow> (Inr (), st')))"

text \<open>
  Modelled from the spec: the interface name of an engine metric, for the reader below
  (spec 3: the metric of a collection is one of \<^verbatim>\<open>cosine\<close>, \<^verbatim>\<open>euclidean\<close>,
  \<^verbatim>\<open>dot\<close>). It is \<^verbatim>\<open>metric_map\<close> read from right to left; an engine name that
  \<^verbatim>\<open>metric_map\<close> does not produce has no interface name.
\<close>

definition interface_metric :: "string \<Rightarrow> string option" where
  "interface_metric engine_metric = map_of (map (\<lambda>(k, v). (v, k)) metric_map) engine_metric"

text \<open>
  Modelled from the spec: \<^verbatim>\<open>ChromaVectorDB.get_collection_info\<close> is not in the
  sources (only the results its test expects are). Spec 4.2: dimension and metric
  "are persisted explicitly as collection-level metadata at creation time, and
  getCollectionInfo reads them back from that metadata rather than inferring them";
  spec 3: the metric reported is one of \<^verbatim>\<open>cosine\<close>, \<^verbatim>\<open>euclidean\<close>, \<^verbatim>\<open>dot\<close>;
  spec 4.1: the result is the collection's information or not-found. The function is
  given the client of an initialised adapter.
\<close>

definition chroma_get_collection_info ::
  "'s ClientAPI \<Rightarrow> 's \<Rightarrow> string \<Rightarrow> collection_info_dict option" where
  "chroma_get_collection_info c st nm =
     (case c_get_collection c st nm of
        Inl failure \<Rightarrow> None
      | Inr coll \<Rightarrow>
          (case (map_of (coll_metadata coll) ''dimension'',
                 map_of (coll_metadata coll) ''hnsw:space'') of
             (Some (MInt d), Some (MStr m)) \<Rightarrow>
               (case interface_metric m of
                  None \<Rightarrow> None
                | Some distance_metric \<Rightarrow>
                    Some \<lparr> info_name = nm, info_dimension = d,
                           info_vector_count = Some (coll_count coll),
                           info_distance_metric = distance_metric \<rparr>)
           | _ \<Rightarrow> None))"

text \<open>
  What the round trip of the schema needs of the engine: a collection that was created
  is found again, with the metadata it was created with.
\<close>

definition keeps_metadata :: "'s ClientAPI \<Rightarrow> bool" where
  "keeps_metadata c \<longleftrightarrow>
     (\<forall>st nm md st'. c_create_collection c st nm md = (Inr (), st') \<longrightarrow>
        (\<exists>coll. c_get_collection c st' nm = Inr coll \<and> coll_metadata coll = md))"

subsection \<open>Hybrid scorer\<close>

text \<open>
  The default weights, from the configuration reference of the README
  (\<^verbatim>\<open>DOCVECTOR_SEARCH_VECTOR_WEIGHT=0.7\<close>, \<^verbatim>\<open>DOCVECTOR_SEARCH_KEYWORD_WEIGHT=0.3\<close>).
\<close>

definition search_vector_weight :: real where
  "search_vector_weight = 0.7"

definition search_keyword_weight :: real where
  "search_keyword_weight = 0.3"

record 'p search_hit =
  hit_id :: string
  hit_score :: real
  hit_payload :: 'p

text \<open>
  Modelled from the spec: the hybrid scorer (\<^verbatim>\<open>search/hybrid_search.py\<close>) is not in
  the sources. Spec 4.5: "combined(id) = w_v * vectorScore(id) + w_k * keywordScore(id)";
  "an id present in only one list uses only that list's weighted term; the missing term
  is treated as zero"; "when both lists describe the same id with different payloads,
  the vector-backend payload wins"; "the merged list is sorted descending by combined
  score, ties broken by id, truncated to the requested limit, and entries below a
  configurable absolute floor are dropped".
\<close>

definition score_of :: "'p search_hit list \<Rightarrow> string \<Rightarrow> real" where
  "score_of hits i = (case find (\<lambda>h. hit_id h = i) hits of None \<Rightarrow> 0 | Some h \<Rightarrow> hit_score h)"

text \<open>Modelled from the spec: the combined score of an id (spec 4.5, as above).\<close>

definition combined :: "real \<Rightarrow> real \<Rightarrow> 'p search_hit list \<Rightarrow> 'p search_hit list \<Rightarrow> string \<Rightarrow> real" where
  "combined w_v w_k vector_hits keyword_hits i =
     w_v * score_of vector_hits i + w_k * score_of keyword_hits i"

text \<open>Modelled from the spec: every id of either list, once (spec 4.5, deduplication).\<close>

definition merged_ids :: "'p search_hit list \<Rightarrow> 'p search_hit list \<Rightarrow> string list" where
  "merged_ids vector_hits keyword_hits = remdups (map hit_id vector_hits @ map hit_id keyword_hits)"

text \<open>Modelled from the spec: the payload of a merged id; the vector payload wins (spec 4.5).\<close>

definition payload_of :: "'p search_hit list \<Rightarrow> 'p search_hit list \<Rightarrow> string \<Rightarrow> 'p option" where
  "payload_of vector_hits keyword_hits i =
     (case find (\<lambda>h. hit_id h = i) vector_hits of
        Some h \<Rightarrow> Some (hit_payload h)
      | None \<Rightarrow> map_option hit_payload (find (\<lambda>h. hit_id h = i) keyword_hits))"

text \<open>
  Modelled from the spec: the order of the merged list, descending by score and
  ascending by id among equal scores (spec 4.5 and 4.1); ids compare as Python strings
  do, character code by character code.
\<close>

fun str_le :: "string \<Rightarrow> string \<Rightarrow> bool" where
  "str_le [] t = True"
| "str_le (c # cs) [] = False"
| "str_le (c # cs) (d # ds) =
     ((of_char c :: nat) < of_char d \<or> (c = d \<and> str_le cs ds))"

text \<open>Modelled from the spec: one entry ranks before another (spec 4.5, ordering).\<close>

definition ranks_before :: "'p search_hit \<Rightarrow> 'p search_hit \<Rightarrow> bool" where
  "ranks_before a b =
     (if hit_score b < hit_score a then True
      else if hit_score a < hit_score b then False
      else str_le (hit_id a) (hit_id b))"

text \<open>Modelled from the spec: sorting by that order, by insertion (spec 4.5, ordering).\<close>

fun insert_ranked :: "'p search_hit \<Rightarrow> 'p search_hit list \<Rightarrow> 'p search_hit list" where
  "insert_ranked h [] = [h]"
| "insert_ranked h (x # xs) = (if ranks_before h x then h # x # xs else x # insert_ranked h xs)"

text \<open>Modelled from the spec: the sorted list (spec 4.5, ordering).\<close>

fun sort_ranked :: "'p search_hit list \<Rightarrow> 'p search_hit list" where
  "sort_ranked [] = []"
| "sort_ranked (h # hs) = insert_ranked h (sort_ranked hs)"

text \<open>Modelled from the spec: the merged and sorted list, before truncation (spec 4.5).\<close>

definition fuse ::
  "real \<Rightarrow> real \<Rightarrow> 'p search_hit list \<Rightarrow> 'p search_hit list \<Rightarrow> 'p option search_hit list" where
  "fuse w_v w_k vector_hits keyword_hits =
     sort_ranked
       (map (\<lambda>i. \<lparr> hit_id = i,
                   hit_score = combined w_v w_k vector_hits keyword_hits i,
                   hit_payload = payload_of vector_hits keyword_hits i \<rparr>)
            (merged_ids vector_hits keyword_hits))"

text \<open>
  Modelled from the spec: the hybrid scorer with its weights, its limit and its floor
  (spec 4.5: sorted, truncated to the limit, entries below the floor dropped).
\<close>

definition hybrid_search ::
  "real \<Rightarrow> real \<Rightarrow> nat \<Rightarrow> real \<Rightarrow> 'p search_hit list \<Rightarrow> 'p search_hit list \<Rightarrow>
     'p option search_hit list" where
  "hybrid_search w_v w_k limit floor_score vector_hits keyword_hits =
     filter (\<lambda>h. floor_score \<le> hit_score h) (take limit (fuse w_v w_k vector_hits keyword_hits))"

subsection \<open>Embedded adapter: search\<close>

text \<open>
  What \<^verbatim>\<open>search\<close> uses of a ChromaDB collection: its \<^verbatim>\<open>query\<close>, which returns for
  the one query vector the rows found (id, raw distance, metadata), and the metadata the
  collection was created with. The collection handle \<^verbatim>\<open>coll\<close> is not bound in the
  sources' fragment of \<^verbatim>\<open>search\<close>; it is a parameter of the model.
\<close>

record raw_row =
  row_id :: string
  row_distance :: real
  row_metadata :: metadata

record 's Collection =
  collection_metadata :: metadata
  query :: "'s \<Rightarrow> real list \<Rightarrow> nat \<Rightarrow> metadata option \<Rightarrow> backend_failure + raw_row list"





subsection \<open>Concrete configurations used in the examples\<close>

definition cloud_url_only :: settings where
  "cloud_url_only =
     \<lparr> mcp_mode = ''cloud'', chroma_persist_directory = ''./data/chroma'',
       qdrant_url = Some ''https://xxx.cloud.qdrant.io'', qdrant_api_key = None,
       qdrant_host = Some ''localhost'', qdrant_port = Some 6333,
       qdrant_grpc_port = Some 6334, qdrant_use_grpc = False \<rparr>"

definition cloud_key_only :: settings where
  "cloud_key_only =
     \<lparr> mcp_mode = ''hybrid'', chroma_persist_directory = ''./data/chroma'',
       qdrant_url = None, qdrant_api_key = Some ''test-key'',
       qdrant_host = Some ''localhost'', qdrant_port = Some 6333,
       qdrant_grpc_port = Some 6334, qdrant_use_grpc = False \<rparr>"

definition local_settings :: "string \<Rightarrow> settings" where
  "local_settings persist_dir =
     \<lparr> mcp_mode = ''local'', chroma_persist_directory = persist_dir,
       qdrant_url = None, qdrant_api_key = None,
       qdrant_host = Some ''localhost'', qdrant_port = Some 6333,
       qdrant_grpc_port = Some 6334, qdrant_use_grpc = False \<rparr>"

text \<open>
  Three filesystems: one on which no path exists, one on which \<^verbatim>\<open>/var/lib\<close> exists
  and is read-only, one on which every path exists and is writable.
\<close>

definition empty_fs :: filesystem where
  "empty_fs = \<lparr> path_exists = (\<lambda>p. False), access_W_OK = (\<lambda>p. False) \<rparr>"

definition readonly_fs :: filesystem where
  "readonly_fs = \<lparr> path_exists = (\<lambda>p. p = ''/var/lib''), access_W_OK = (\<lambda>p. False) \<rparr>"

definition writable_fs :: filesystem where
  "writable_fs = \<lparr> path_exists = (\<lambda>p. True), access_W_OK = (\<lambda>p. True) \<rparr>"

definition self_hosted_settings :: settings where
  "self_hosted_settings =
     \<lparr> mcp_mode = ''cloud'', chroma_persist_directory = ''./data/chroma'',
       qdrant_url = None, qdrant_api_key = None,
       qdrant_host = Some ''localhost'', qdrant_port = Some 6333,
       qdrant_grpc_port = Some 6334, qdrant_use_grpc = False \<rparr>"

subsection \<open>Stand-ins for the external engines, used in the examples\<close>

text \<open>
  An in-memory remote service: collections by name, each a list of points with an id
  and a payload; a filter is a list of key/value pairs that a payload must contain.
  \<open>mem_client\<close> serves it faithfully; \<open>busy_client\<close> serves it while another writer
  adds three points during every delete request; \<open>unreachable_client\<close> fails every call.
\<close>

type_synonym mem_point = "string \<times> (string \<times> string) list"

type_synonym mem_service = "(string \<times> mem_point list) list"

fun selected :: "(string \<times> string) list PointsSelector \<Rightarrow> mem_point \<Rightarrow> bool" where
  "selected (PointIdsList ids) pt = (fst pt \<in> set ids)"
| "selected (FilterSelector f) pt = list_all (\<lambda>kv. kv \<in> set (snd pt)) f"

definition mem_get_collection :: "mem_service \<Rightarrow> string \<Rightarrow> backend_failure + CollectionInfo" where
  "mem_get_collection st nm =
     (case map_of st nm of
        None \<Rightarrow> Inl (UnexpectedResponse 404 ''Not found'')
      | Some pts \<Rightarrow>
          Inr \<lparr> config_params_vectors = VectorParams 384 COSINE,
                points_count = Some (int (length pts)) \<rparr>)"

definition mem_delete ::
  "mem_point list \<Rightarrow> mem_service \<Rightarrow> string \<Rightarrow> (string \<times> string) list PointsSelector \<Rightarrow>
     (backend_failure + unit) \<times> mem_service" where
  "mem_delete arriving st nm sel =
     (case map_of st nm of
        None \<Rightarrow> (Inl (UnexpectedResponse 404 ''Not found''), st)
      | Some pts \<Rightarrow>
          (Inr (),
           map (\<lambda>(k, v). if k = nm then (k, arriving @ filter (\<lambda>pt. \<not> selected sel pt) v)
                          else (k, v)) st))"

definition mem_client :: "(mem_service, (string \<times> string) list) AsyncQdrantClient" where
  "mem_client = \<lparr> q_get_collection = mem_get_collection, q_delete = mem_delete [] \<rparr>"

definition busy_client :: "(mem_service, (string \<times> string) list) AsyncQdrantClient" where
  "busy_client =
     \<lparr> q_get_collection = mem_get_collection,
       q_delete = mem_delete [(''w1'', []), (''w2'', []), (''w3'', [])] \<rparr>"

definition unreachable_client :: "(mem_service, (string \<times> string) list) AsyncQdrantClient" where
  "unreachable_client =
     \<lparr> q_get_collection = (\<lambda>st nm. Inl (ConnectionFailure ''Connection refused'')),
       q_delete = (\<lambda>st nm sel. (Inl (ConnectionFailure ''Connection refused''), st)) \<rparr>"

definition docs_service :: mem_service where
  "docs_service =
     [(''docs'', [(''q1'', [(''source'', ''test'')]),
                  (''q2'', [(''source'', ''test'')]),
                  (''q3'', [(''source'', ''react'')])])]"

text \<open>
  The remote adapter as constructed for a self-hosted service, before
  \<^verbatim>\<open>initialize()\<close>, and the same adapter holding a client.
\<close>

definition new_qdrant :: "'q QdrantVectorDB" where
  "new_qdrant = QdrantVectorDB_init self_hosted_settings (Some ''localhost'') (Some 6333) None None None None"

definition qdrant_with :: "'q \<Rightarrow> 'q QdrantVectorDB" where
  "qdrant_with c = new_qdrant \<lparr> client := Some c \<rparr>"

text \<open>
  An in-memory ChromaDB store: the metadata of each collection, by name. Creating a
  collection whose name is taken fails.
\<close>

type_synonym mem_store = "(string \<times> metadata) list"

definition mem_chroma :: "mem_store ClientAPI" where
  "mem_chroma =
     \<lparr> c_create_collection =
         (\<lambda>st nm md. case map_of st nm of
                        None \<Rightarrow> (Inr (), (nm, md) # st)
                      | Some old \<Rightarrow> (Inl (UnexpectedResponse 409 ''Collection already exists''), st)),
       c_get_collection =
         (\<lambda>st nm. case map_of st nm of
                     None \<Rightarrow> Inl (UnexpectedResponse 404 ''Collection does not exist'')
                   | Some md \<Rightarrow> Inr \<lparr> coll_metadata = md, coll_count = 0 \<rparr>) \<rparr>"

definition new_chroma :: "'c ChromaVectorDB" where
  "new_chroma = ChromaVectorDB_init (local_settings ''./data/chroma'') (Some ''./test_data/chroma'')"

definition chroma_with :: "'c \<Rightarrow> 'c ChromaVectorDB" where
  "chroma_with c = new_chroma \<lparr> client' := Some c \<rparr>"

text \<open>The lists of the fusion example of the spec; the payloads are left empty.\<close>

definition example_vector_hits :: "unit search_hit list" where
  "example_vector_hits = [\<lparr> hit_id = ''a'', hit_score = 0.9, hit_payload = () \<rparr>]"

definition example_keyword_hits :: "unit search_hit list" where
  "example_keyword_hits =
     [\<lparr> hit_id = ''a'', hit_score = 0.5, hit_payload = () \<rparr>,
      \<lparr> hit_id = ''b'', hit_score = 0.8, hit_payload = () \<rparr>]"


section \<open>Theorems\<close>

lemma mapped_metric_standard:
  "mapped_metric ''cosine'' = ''cosine''"
  "mapped_metric ''euclidean'' = ''l2''"
  "mapped_metric ''dot'' = ''ip''"
  by (simp_all add: mapped_metric_def metric_map_def lower_def lower_char_def)

lemma set_insert_ranked: "set (insert_ranked h xs) = insert h (set xs)"
  by (induction xs) auto

lemma set_sort_ranked: "set (sort_ranked xs) = set xs"
  by (induction xs) (auto simp: set_insert_ranked)






subsection \<open>Configuration validation\<close>

lemma dirname_examples:
  "dirname ''/var/lib/chroma'' = ''/var/lib''"
  "dirname ''/mnt/archive/chroma'' = ''/mnt/archive''"
  "dirname ''chroma'' = []"
  by (simp_all add: dirname_def)

lemma factory_keeps_qdrant_config_error:
  assumes "validate_qdrant_config s = Inl (VectorDBConfigurationError m)"
    and "effective = ''cloud'' \<or> effective = ''hybrid''"
    and "mode = Some effective \<or> (mode = None \<and> mcp_mode s = effective)"
  shows "get_vector_db fs s mode = Inl (VectorDBConfigurationError m)"
  using assms by (auto simp: get_vector_db_def)

text \<open>
  C4. When the Qdrant configuration is validated, a URL without an API key raises
  \<^verbatim>\<open>VectorDBConfigurationError\<close> with a message that names
  \<^verbatim>\<open>DOCVECTOR_QDRANT_API_KEY\<close>, and an API key without a URL raises it with a message
  that names \<^verbatim>\<open>DOCVECTOR_QDRANT_URL\<close>, whatever host and port are configured; in the
  cloud and hybrid modes the factory returns that same error and no adapter, so that
  there is no fall-back to the self-hosted host and port and nothing exists that could
  open a connection.
\<close>

theorem validate_qdrant_config_half_cloud:
  fixes fs :: filesystem and s :: settings
  defines "key_missing \<equiv>
    ''Qdrant URL provided but API key missing. Set DOCVECTOR_QDRANT_API_KEY for cloud deployment.''"
  defines "url_missing \<equiv>
    ''Qdrant API key provided but URL missing. Set DOCVECTOR_QDRANT_URL for cloud deployment.''"
  shows
    "(truthy (qdrant_url s) \<and> \<not> truthy (qdrant_api_key s) \<longrightarrow>
        validate_qdrant_config s = Inl (VectorDBConfigurationError key_missing)
        \<and> (\<forall>mode \<in> {Some ''cloud'', Some ''hybrid''}.
             (get_vector_db fs s mode :: py_error + ('c, 'q) IVectorStore)
               = Inl (VectorDBConfigurationError key_missing))
        \<and> (mcp_mode s \<in> {''cloud'', ''hybrid''} \<longrightarrow>
             (get_vector_db fs s None :: py_error + ('c, 'q) IVectorStore)
               = Inl (VectorDBConfigurationError key_missing)))
     \<and> (\<not> truthy (qdrant_url s) \<and> truthy (qdrant_api_key s) \<longrightarrow>
        validate_qdrant_config s = Inl (VectorDBConfigurationError url_missing)
        \<and> (\<forall>mode \<in> {Some ''cloud'', Some ''hybrid''}.
             (get_vector_db fs s mode :: py_error + ('c, 'q) IVectorStore)
               = Inl (VectorDBConfigurationError url_missing))
        \<and> (mcp_mode s \<in> {''cloud'', ''hybrid''} \<longrightarrow>
             (get_vector_db fs s None :: py_error + ('c, 'q) IVectorStore)
               = Inl (VectorDBConfigurationError url_missing)))
     \<and> (\<exists>pre post. key_missing = pre @ ''DOCVECTOR_QDRANT_API_KEY'' @ post)
     \<and> (\<exists>pre post. url_missing = pre @ ''DOCVECTOR_QDRANT_URL'' @ post)"
proof -
  have v1: "validate_qdrant_config s = Inl (VectorDBConfigurationError key_missing)"
    if "truthy (qdrant_url s)" "\<not> truthy (qdrant_api_key s)"
    using that by (simp add: validate_qdrant_config_def key_missing_def)
  have v2: "validate_qdrant_config s = Inl (VectorDBConfigurationError url_missing)"
    if "\<not> truthy (qdrant_url s)" "truthy (qdrant_api_key s)"
    using that by (simp add: validate_qdrant_config_def url_missing_def)
  have n1: "\<exists>pre post. key_missing = pre @ ''DOCVECTOR_QDRANT_API_KEY'' @ post"
    unfolding key_missing_def
    by (rule exI [of _ "''Qdrant URL provided but API key missing. Set ''"],
        rule exI [of _ "'' for cloud deployment.''"]) simp
  have n2: "\<exists>pre post. url_missing = pre @ ''DOCVECTOR_QDRANT_URL'' @ post"
    unfolding url_missing_def
    by (rule exI [of _ "''Qdrant API key provided but URL missing. Set ''"],
        rule exI [of _ "'' for cloud deployment.''"]) simp
  have f: "(get_vector_db fs s mode :: py_error + ('c, 'q) IVectorStore)
             = Inl (VectorDBConfigurationError m)"
    if "validate_qdrant_config s = Inl (VectorDBConfigurationError m)"
      and "mode \<in> {Some ''cloud'', Some ''hybrid''}" for m mode
  proof -
    from that(2) obtain effective where
      "effective = ''cloud'' \<or> effective = ''hybrid''" "mode = Some effective"
      by auto
    with that(1) show ?thesis
      by (intro factory_keeps_qdrant_config_error [where effective = effective]) simp_all
  qed
  have g: "(get_vector_db fs s None :: py_error + ('c, 'q) IVectorStore)
             = Inl (VectorDBConfigurationError m)"
    if "validate_qdrant_config s = Inl (VectorDBConfigurationError m)"
      and "mcp_mode s \<in> {''cloud'', ''hybrid''}" for m
  proof -
    from that(2) have "mcp_mode s = ''cloud'' \<or> mcp_mode s = ''hybrid''"
      by simp
    with that(1) show ?thesis
      by (intro factory_keeps_qdrant_config_error [where effective = "mcp_mode s"]) simp_all
  qed
  have c1: "truthy (qdrant_url s) \<and> \<not> truthy (qdrant_api_key s) \<longrightarrow>
        validate_qdrant_config s = Inl (VectorDBConfigurationError key_missing)
        \<and> (\<forall>mode \<in> {Some ''cloud'', Some ''hybrid''}.
             (get_vector_db fs s mode :: py_error + ('c, 'q) IVectorStore)
               = Inl (VectorDBConfigurationError key_missing))
        \<and> (mcp_mode s \<in> {''cloud'', ''hybrid''} \<longrightarrow>
             (get_vector_db fs s None :: py_error + ('c, 'q) IVectorStore)
               = Inl (VectorDBConfigurationError key_missing))"
  proof (intro impI)
    assume "truthy (qdrant_url s) \<and> \<not> truthy (qdrant_api_key s)"
    then have v: "validate_qdrant_config s = Inl (VectorDBConfigurationError key_missing)"
      using v1 by simp
    from f [OF v] g [OF v] v
    show "validate_qdrant_config s = Inl (VectorDBConfigurationError key_missing)
        \<and> (\<forall>mode \<in> {Some ''cloud'', Some ''hybrid''}.
             (get_vector_db fs s mode :: py_error + ('c, 'q) IVectorStore)
               = Inl (VectorDBConfigurationError key_missing))
        \<and> (mcp_mode s \<in> {''cloud'', ''hybrid''} \<longrightarrow>
             (get_vector_db fs s None :: py_error + ('c, 'q) IVectorStore)
               = Inl (VectorDBConfigurationError key_missing))"
      by (intro conjI ballI impI)
  qed
  have c2: "\<not> truthy (qdrant_url s) \<and> truthy (qdrant_api_key s) \<longrightarrow>
        validate_qdrant_config s = Inl (VectorDBConfigurationError url_missing)
        \<and> (\<forall>mode \<in> {Some ''cloud'', Some ''hybrid''}.
             (get_vector_db fs s mode :: py_error + ('c, 'q) IVectorStore)
               = Inl (VectorDBConfigurationError url_missing))
        \<and> (mcp_mode s \<in> {''cloud'', ''hybrid''} \<longrightarrow>
             (get_vector_db fs s None :: py_error + ('c, 'q) IVectorStore)
               = Inl (VectorDBConfigurationError url_missing))"
  proof (intro impI)
    assume "\<not> truthy (qdrant_url s) \<and> truthy (qdrant_api_key s)"
    then have v: "validate_qdrant_config s = Inl (VectorDBConfigurationError url_missing)"
      using v2 by simp
    from f [OF v] g [OF v] v
    show "validate_qdrant_config s = Inl (VectorDBConfigurationError url_missing)
        \<and> (\<forall>mode \<in> {Some ''cloud'', Some ''hybrid''}.
             (get_vector_db fs s mode :: py_error + ('c, 'q) IVectorStore)
               = Inl (VectorDBConfigurationError url_missing))
        \<and> (mcp_mode s \<in> {''cloud'', ''hybrid''} \<longrightarrow>
             (get_vector_db fs s None :: py_error + ('c, 'q) IVectorStore)
               = Inl (VectorDBConfigurationError url_missing))"
      by (intro conjI ballI impI)
  qed
  from c1 c2 n1 n2 show ?thesis
    by (intro conjI)
qed

theorem validate_qdrant_config_half_cloud_witness:
  "truthy (qdrant_url cloud_url_only) \<and> \<not> truthy (qdrant_api_key cloud_url_only)
   \<and> \<not> truthy (qdrant_url cloud_key_only) \<and> truthy (qdrant_api_key cloud_key_only)
   \<and> mcp_mode cloud_url_only \<in> {''cloud'', ''hybrid''}
   \<and> validate_qdrant_config cloud_url_only =
       Inl (VectorDBConfigurationError
         ''Qdrant URL provided but API key missing. Set DOCVECTOR_QDRANT_API_KEY for cloud deployment.'')
   \<and> (get_vector_db empty_fs cloud_url_only None :: py_error + (unit, unit) IVectorStore) =
       Inl (VectorDBConfigurationError
         ''Qdrant URL provided but API key missing. Set DOCVECTOR_QDRANT_API_KEY for cloud deployment.'')
   \<and> (get_vector_db empty_fs cloud_key_only (Some ''cloud'') :: py_error + (unit, unit) IVectorStore) =
       Inl (VectorDBConfigurationError
         ''Qdrant API key provided but URL missing. Set DOCVECTOR_QDRANT_URL for cloud deployment.'')"
proof -
  have h1: "truthy (qdrant_url cloud_url_only) \<and> \<not> truthy (qdrant_api_key cloud_url_only)"
    by (simp add: cloud_url_only_def truthy_def)
  have h2: "\<not> truthy (qdrant_url cloud_key_only) \<and> truthy (qdrant_api_key cloud_key_only)"
    by (simp add: cloud_key_only_def truthy_def)
  have h3: "mcp_mode cloud_url_only \<in> {''cloud'', ''hybrid''}"
    by (simp add: cloud_url_only_def)
  note url_only = validate_qdrant_config_half_cloud
    [of cloud_url_only empty_fs, where ?'c = unit and ?'q = unit, THEN conjunct1, THEN mp, OF h1]
  note key_only = validate_qdrant_config_half_cloud
    [of cloud_key_only empty_fs, where ?'c = unit and ?'q = unit, THEN conjunct2, THEN conjunct1,
     THEN mp, OF h2]
  note by_default = url_only [THEN conjunct2, THEN conjunct2, THEN mp, OF h3]
  from h1 h2 h3 url_only key_only by_default show ?thesis
    by simp
qed

text \<open>
  C9 as stated fails: on a filesystem where the parent directory of the persist path
  does not exist, \<^verbatim>\<open>os.access(parent, os.W_OK)\<close> is false, yet the validation passes
  (the check is guarded by \<^verbatim>\<open>os.path.exists(parent_dir)\<close>) and the factory constructs
  the adapter.
\<close>

theorem validate_chroma_config_missing_parent_counterexample:
  "chroma_persist_directory (local_settings ''/mnt/archive/chroma'') \<noteq> []
   \<and> \<not> access_W_OK empty_fs (parent_dir_of ''/mnt/archive/chroma'')
   \<and> validate_chroma_config empty_fs (local_settings ''/mnt/archive/chroma'') = Inr ()
   \<and> (get_vector_db empty_fs (local_settings ''/mnt/archive/chroma'') None
         :: py_error + (unit, unit) IVectorStore)
       = Inr (Chroma \<lparr> persist_directory = ''/mnt/archive/chroma'', client' = None \<rparr>)"
  by (simp add: validate_chroma_config_def get_vector_db_def local_settings_def empty_fs_def
      ChromaVectorDB_init_def)

lemma validate_chroma_config_Inr:
  "validate_chroma_config fs s = Inr u \<longleftrightarrow>
     chroma_persist_directory s \<noteq> []
     \<and> (path_exists fs (parent_dir_of (chroma_persist_directory s))
          \<longrightarrow> access_W_OK fs (parent_dir_of (chroma_persist_directory s)))"
  by (auto simp: validate_chroma_config_def Let_def)

lemma get_vector_db_Chroma:
  assumes "get_vector_db fs s mode = Inr (Chroma cdb)"
  shows "validate_chroma_config fs s = Inr ()
         \<and> cdb = ChromaVectorDB_init s (Some (chroma_persist_directory s))"
proof (cases "(case mode of None \<Rightarrow> mcp_mode s | Some m \<Rightarrow> if m \<noteq> [] then m else mcp_mode s)
              = ''local''")
  case True
  show ?thesis
  proof (cases "validate_chroma_config fs s")
    case (Inl e)
    with assms True show ?thesis
      by (cases e) (simp_all add: get_vector_db_def Let_def)
  next
    case (Inr u)
    with assms True show ?thesis
      by (simp add: get_vector_db_def Let_def)
  qed
next
  case False
  show ?thesis
  proof (cases "validate_qdrant_config s")
    case (Inl e)
    with assms False show ?thesis
      by (cases e) (simp_all add: get_vector_db_def Let_def split: if_splits)
  next
    case (Inr u)
    with assms False show ?thesis
      by (simp add: get_vector_db_def Let_def split: if_splits)
  qed
qed

lemma get_vector_db_local:
  assumes "mode = Some ''local'' \<or> (mode = None \<and> mcp_mode s = ''local'')"
    and "get_vector_db fs s mode = Inr db"
  shows "\<exists>cdb. db = Chroma cdb"
proof (cases "validate_chroma_config fs s")
  case (Inl e)
  with assms show ?thesis
    by (cases e) (auto simp: get_vector_db_def)
next
  case (Inr u)
  with assms show ?thesis
    by (auto simp: get_vector_db_def)
qed

text \<open>
  C9, amended. Validation of the embedded configuration raises
  \<^verbatim>\<open>VectorDBConfigurationError\<close> whenever the persist path is empty, and whenever
  the parent directory of the persist path exists and the probe
  \<^verbatim>\<open>os.access(parent, os.W_OK)\<close> fails; a parent directory that does not exist passes.
  The factory constructs the embedded adapter only for configurations that pass both
  checks, whatever the mode argument of the call: with the mode given as
  \<^verbatim>\<open>local\<close>, with no mode given and \<^verbatim>\<open>local\<close> configured, and in general whenever
  what it returns is an embedded adapter; and for a configuration that passes both
  checks it does construct it.
\<close>

theorem validate_chroma_config_checks:
  fixes fs :: filesystem and s :: settings
  defines "p \<equiv> chroma_persist_directory s"
  shows
    "(p = [] \<longrightarrow>
        validate_chroma_config fs s =
          Inl (VectorDBConfigurationError
            ''ChromaDB persist directory not configured. Set DOCVECTOR_CHROMA_PERSIST_DIRECTORY environment variable.''))
     \<and> (p \<noteq> [] \<and> path_exists fs (parent_dir_of p) \<and> \<not> access_W_OK fs (parent_dir_of p) \<longrightarrow>
        validate_chroma_config fs s =
          Inl (VectorDBConfigurationError
            (''ChromaDB persist directory parent '' @ [CHR 0x27] @ parent_dir_of p @ [CHR 0x27]
             @ '' is not writable. Check file permissions.'')))
     \<and> (p \<noteq> [] \<and> \<not> path_exists fs (parent_dir_of p) \<longrightarrow> validate_chroma_config fs s = Inr ())
     \<and> (\<forall>db :: ('c, 'q) IVectorStore.
          get_vector_db fs s (Some ''local'') = Inr db \<longrightarrow>
            p \<noteq> []
            \<and> (path_exists fs (parent_dir_of p) \<longrightarrow> access_W_OK fs (parent_dir_of p))
            \<and> db = Chroma \<lparr> persist_directory = p, client' = None \<rparr>)
     \<and> (mcp_mode s = ''local'' \<longrightarrow>
          (\<forall>db :: ('c, 'q) IVectorStore.
             get_vector_db fs s None = Inr db \<longrightarrow>
               p \<noteq> []
               \<and> (path_exists fs (parent_dir_of p) \<longrightarrow> access_W_OK fs (parent_dir_of p))
               \<and> db = Chroma \<lparr> persist_directory = p, client' = None \<rparr>))
     \<and> (\<forall>mode (cdb :: 'c ChromaVectorDB).
          (get_vector_db fs s mode :: py_error + ('c, 'q) IVectorStore) = Inr (Chroma cdb) \<longrightarrow>
            p \<noteq> []
            \<and> (path_exists fs (parent_dir_of p) \<longrightarrow> access_W_OK fs (parent_dir_of p))
            \<and> cdb = \<lparr> persist_directory = p, client' = None \<rparr>)
     \<and> (p \<noteq> [] \<and> (path_exists fs (parent_dir_of p) \<longrightarrow> access_W_OK fs (parent_dir_of p)) \<longrightarrow>
          (get_vector_db fs s (Some ''local'') :: py_error + ('c, 'q) IVectorStore)
            = Inr (Chroma \<lparr> persist_directory = p, client' = None \<rparr>))"
proof -
  have a: "p = [] \<longrightarrow> validate_chroma_config fs s =
          Inl (VectorDBConfigurationError
            ''ChromaDB persist directory not configured. Set DOCVECTOR_CHROMA_PERSIST_DIRECTORY environment variable.'')"
    by (simp add: validate_chroma_config_def p_def)
  have b: "p \<noteq> [] \<and> path_exists fs (parent_dir_of p) \<and> \<not> access_W_OK fs (parent_dir_of p) \<longrightarrow>
        validate_chroma_config fs s =
          Inl (VectorDBConfigurationError
            (''ChromaDB persist directory parent '' @ [CHR 0x27] @ parent_dir_of p @ [CHR 0x27]
             @ '' is not writable. Check file permissions.''))"
    by (simp add: validate_chroma_config_def p_def)
  have c: "p \<noteq> [] \<and> \<not> path_exists fs (parent_dir_of p) \<longrightarrow> validate_chroma_config fs s = Inr ()"
    by (simp add: validate_chroma_config_def p_def)
  have built: "p \<noteq> []
            \<and> (path_exists fs (parent_dir_of p) \<longrightarrow> access_W_OK fs (parent_dir_of p))
            \<and> cdb = \<lparr> persist_directory = p, client' = None \<rparr>"
    if "(get_vector_db fs s mode :: py_error + ('c, 'q) IVectorStore) = Inr (Chroma cdb)"
    for mode and cdb :: "'c ChromaVectorDB"
  proof -
    from get_vector_db_Chroma [OF that]
    have ok: "validate_chroma_config fs s = Inr ()"
      and cdb: "cdb = ChromaVectorDB_init s (Some (chroma_persist_directory s))"
      by simp_all
    from ok have checks: "p \<noteq> []
        \<and> (path_exists fs (parent_dir_of p) \<longrightarrow> access_W_OK fs (parent_dir_of p))"
      by (simp add: validate_chroma_config_Inr p_def)
    with cdb show ?thesis
      by (simp add: ChromaVectorDB_init_def p_def)
  qed
  have local: "p \<noteq> []
            \<and> (path_exists fs (parent_dir_of p) \<longrightarrow> access_W_OK fs (parent_dir_of p))
            \<and> db = Chroma \<lparr> persist_directory = p, client' = None \<rparr>"
    if "mode = Some ''local'' \<or> (mode = None \<and> mcp_mode s = ''local'')"
      and "get_vector_db fs s mode = Inr db"
    for mode and db :: "('c, 'q) IVectorStore"
  proof -
    from get_vector_db_local [OF that] obtain cdb where db: "db = Chroma cdb"
      by blast
    with that(2) have "(get_vector_db fs s mode :: py_error + ('c, 'q) IVectorStore) = Inr (Chroma cdb)"
      by simp
    from built [OF this] db show ?thesis
      by simp
  qed
  have d: "\<forall>db :: ('c, 'q) IVectorStore.
          get_vector_db fs s (Some ''local'') = Inr db \<longrightarrow>
            p \<noteq> []
            \<and> (path_exists fs (parent_dir_of p) \<longrightarrow> access_W_OK fs (parent_dir_of p))
            \<and> db = Chroma \<lparr> persist_directory = p, client' = None \<rparr>"
  proof (intro allI impI)
    fix db :: "('c, 'q) IVectorStore"
    assume "get_vector_db fs s (Some ''local'') = Inr db"
    with local [of "Some ''local''" db]
    show "p \<noteq> []
            \<and> (path_exists fs (parent_dir_of p) \<longrightarrow> access_W_OK fs (parent_dir_of p))
            \<and> db = Chroma \<lparr> persist_directory = p, client' = None \<rparr>"
      by simp
  qed
  have e: "mcp_mode s = ''local'' \<longrightarrow>
          (\<forall>db :: ('c, 'q) IVectorStore.
             get_vector_db fs s None = Inr db \<longrightarrow>
               p \<noteq> []
               \<and> (path_exists fs (parent_dir_of p) \<longrightarrow> access_W_OK fs (parent_dir_of p))
               \<and> db = Chroma \<lparr> persist_directory = p, client' = None \<rparr>)"
  proof (intro allI impI)
    fix db :: "('c, 'q) IVectorStore"
    assume "mcp_mode s = ''local''" and "get_vector_db fs s None = Inr db"
    with local [of None db]
    show "p \<noteq> []
            \<and> (path_exists fs (parent_dir_of p) \<longrightarrow> access_W_OK fs (parent_dir_of p))
            \<and> db = Chroma \<lparr> persist_directory = p, client' = None \<rparr>"
      by simp
  qed
  have f: "\<forall>mode (cdb :: 'c ChromaVectorDB).
          (get_vector_db fs s mode :: py_error + ('c, 'q) IVectorStore) = Inr (Chroma cdb) \<longrightarrow>
            p \<noteq> []
            \<and> (path_exists fs (parent_dir_of p) \<longrightarrow> access_W_OK fs (parent_dir_of p))
            \<and> cdb = \<lparr> persist_directory = p, client' = None \<rparr>"
  proof (intro allI impI)
    fix mode and cdb :: "'c ChromaVectorDB"
    assume "(get_vector_db fs s mode :: py_error + ('c, 'q) IVectorStore) = Inr (Chroma cdb)"
    then show "p \<noteq> []
            \<and> (path_exists fs (parent_dir_of p) \<longrightarrow> access_W_OK fs (parent_dir_of p))
            \<and> cdb = \<lparr> persist_directory = p, client' = None \<rparr>"
      by (rule built)
  qed
  have g: "p \<noteq> [] \<and> (path_exists fs (parent_dir_of p) \<longrightarrow> access_W_OK fs (parent_dir_of p)) \<longrightarrow>
          (get_vector_db fs s (Some ''local'') :: py_error + ('c, 'q) IVectorStore)
            = Inr (Chroma \<lparr> persist_directory = p, client' = None \<rparr>)"
  proof (intro impI)
    assume "p \<noteq> [] \<and> (path_exists fs (parent_dir_of p) \<longrightarrow> access_W_OK fs (parent_dir_of p))"
    then have "validate_chroma_config fs s = Inr ()"
      by (simp add: validate_chroma_config_Inr p_def)
    then show "(get_vector_db fs s (Some ''local'') :: py_error + ('c, 'q) IVectorStore)
            = Inr (Chroma \<lparr> persist_directory = p, client' = None \<rparr>)"
      by (simp add: get_vector_db_def ChromaVectorDB_init_def p_def)
  qed
  from a b c d e f g show ?thesis
    by (intro conjI)
qed

theorem validate_chroma_config_checks_witness:
  "validate_chroma_config writable_fs (local_settings []) =
     Inl (VectorDBConfigurationError
       ''ChromaDB persist directory not configured. Set DOCVECTOR_CHROMA_PERSIST_DIRECTORY environment variable.'')
   \<and> path_exists readonly_fs (parent_dir_of ''/var/lib/chroma'')
   \<and> \<not> access_W_OK readonly_fs (parent_dir_of ''/var/lib/chroma'')
   \<and> validate_chroma_config readonly_fs (local_settings ''/var/lib/chroma'') =
       Inl (VectorDBConfigurationError
         ''ChromaDB persist directory parent '/var/lib' is not writable. Check file permissions.'')
   \<and> \<not> path_exists empty_fs (parent_dir_of ''/mnt/archive/chroma'')
   \<and> validate_chroma_config empty_fs (local_settings ''/mnt/archive/chroma'') = Inr ()
   \<and> (get_vector_db writable_fs (local_settings ''./data/chroma'') (Some ''local'')
         :: py_error + (unit, unit) IVectorStore)
       = Inr (Chroma \<lparr> persist_directory = ''./data/chroma'', client' = None \<rparr>)
   \<and> mcp_mode (local_settings ''./data/chroma'') = ''local''
   \<and> (get_vector_db writable_fs (local_settings ''./data/chroma'') None
         :: py_error + (unit, unit) IVectorStore)
       = Inr (Chroma \<lparr> persist_directory = ''./data/chroma'', client' = None \<rparr>)
   \<and> access_W_OK writable_fs (parent_dir_of ''./data/chroma'')"
proof -
  have pd: "parent_dir_of ''/var/lib/chroma'' = ''/var/lib''"
    "parent_dir_of ''/mnt/archive/chroma'' = ''/mnt/archive''"
    by (simp_all add: parent_dir_of_def dirname_examples)
  have built: "(get_vector_db writable_fs (local_settings ''./data/chroma'') (Some ''local'')
         :: py_error + (unit, unit) IVectorStore)
       = Inr (Chroma \<lparr> persist_directory = ''./data/chroma'', client' = None \<rparr>)"
    by (simp add: get_vector_db_def validate_chroma_config_def local_settings_def
        writable_fs_def ChromaVectorDB_init_def)
  have by_default: "(get_vector_db writable_fs (local_settings ''./data/chroma'') None
         :: py_error + (unit, unit) IVectorStore)
       = Inr (Chroma \<lparr> persist_directory = ''./data/chroma'', client' = None \<rparr>)"
    by (simp add: get_vector_db_def validate_chroma_config_def local_settings_def
        writable_fs_def ChromaVectorDB_init_def)
  have configured: "mcp_mode (local_settings ''./data/chroma'') = ''local''"
    by (simp add: local_settings_def)
  note empty = validate_chroma_config_checks
    [of "local_settings []" writable_fs, where ?'c = unit and ?'q = unit, THEN conjunct1]
  note readonly = validate_chroma_config_checks
    [of "local_settings ''/var/lib/chroma''" readonly_fs, where ?'c = unit and ?'q = unit,
     THEN conjunct2, THEN conjunct1]
  note missing = validate_chroma_config_checks
    [of "local_settings ''/mnt/archive/chroma''" empty_fs, where ?'c = unit and ?'q = unit,
     THEN conjunct2, THEN conjunct2, THEN conjunct1]
  note reached = validate_chroma_config_checks
    [of "local_settings ''./data/chroma''" writable_fs, where ?'c = unit and ?'q = unit,
     THEN conjunct2, THEN conjunct2, THEN conjunct2, THEN conjunct1, THEN spec, THEN mp,
     OF built]
  note reached_by_default = validate_chroma_config_checks
    [of "local_settings ''./data/chroma''" writable_fs, where ?'c = unit and ?'q = unit,
     THEN conjunct2, THEN conjunct2, THEN conjunct2, THEN conjunct2, THEN conjunct1,
     THEN mp, OF configured, THEN spec, THEN mp, OF by_default]
  have c1: "validate_chroma_config writable_fs (local_settings []) =
     Inl (VectorDBConfigurationError
       ''ChromaDB persist directory not configured. Set DOCVECTOR_CHROMA_PERSIST_DIRECTORY environment variable.'')"
    using empty by (simp add: local_settings_def)
  have c2: "path_exists readonly_fs (parent_dir_of ''/var/lib/chroma'')"
    "\<not> access_W_OK readonly_fs (parent_dir_of ''/var/lib/chroma'')"
    by (simp_all add: pd readonly_fs_def)
  have c3: "validate_chroma_config readonly_fs (local_settings ''/var/lib/chroma'') =
       Inl (VectorDBConfigurationError
         ''ChromaDB persist directory parent '/var/lib' is not writable. Check file permissions.'')"
    using readonly c2 by (simp add: local_settings_def pd)
  have c4: "\<not> path_exists empty_fs (parent_dir_of ''/mnt/archive/chroma'')"
    by (simp add: empty_fs_def)
  have c5: "validate_chroma_config empty_fs (local_settings ''/mnt/archive/chroma'') = Inr ()"
    using missing c4 by (simp add: local_settings_def)
  have c6: "access_W_OK writable_fs (parent_dir_of ''./data/chroma'')"
    using reached_by_default by (simp add: local_settings_def writable_fs_def)
  from c1 c2 c3 c4 c5 built configured by_default c6 show ?thesis
    by (intro conjI)
qed

subsection \<open>Remote adapter: delete and collection information\<close>

lemma delete_by_ids_error:
  "delete_by_ids c collection ids st = (Inl e, st') \<Longrightarrow> \<exists>failure. e = BackendError failure"
  by (auto simp: delete_by_ids_def split: option.splits list.splits sum.splits prod.splits)

lemma delete_by_filter_error:
  "delete_by_filter build_filter c collection filters st = (Inl e, st') \<Longrightarrow>
     \<exists>failure. e = BackendError failure"
  by (auto simp: delete_by_filter_def split: option.splits list.splits sum.splits prod.splits)

lemma delete_by_ids_absent:
  "delete_by_ids c collection None st = (Inr (), st)"
  by (simp add: delete_by_ids_def)

lemma delete_Inr_cases:
  assumes "delete build_filter db collection ids filters st = (Inr n, st')"
  obtains c pre_info st1 post_info where
    "client db = Some c"
    "q_get_collection c st collection = Inr pre_info"
    "delete_by_ids c collection ids st = (Inr (), st1)"
    "delete_by_filter build_filter c collection filters st1 = (Inr (), st')"
    "q_get_collection c st' collection = Inr post_info"
    "n = max 0 (or_zero (points_count pre_info) - or_zero (points_count post_info))"
  using assms
  by (auto simp: delete_def Let_def
      split: if_splits option.splits sum.splits prod.splits)

text \<open>
  C5. Whenever a delete on the remote adapter returns a count (in particular a
  filter-based delete), the count is \<open>max(0, count_before - count_after)\<close>, where
  \<open>count_before\<close> is the point count the client reports in the state the call started
  in and \<open>count_after\<close> the point count it reports in the state the delete requests
  left behind; for a delete by filter alone that state is the one the single filter
  request produced. The count is never negative.
\<close>

theorem delete_count_is_clamped_difference:
  assumes "delete build_filter db collection ids filters st = (Inr n, st')"
  shows "\<exists>c pre_info post_info.
           client db = Some c
           \<and> q_get_collection c st collection = Inr pre_info
           \<and> q_get_collection c st' collection = Inr post_info
           \<and> n = max 0 (or_zero (points_count pre_info) - or_zero (points_count post_info))
           \<and> 0 \<le> n
           \<and> (\<forall>f. ids = None \<and> filters = Some f \<and> f \<noteq> [] \<longrightarrow>
                 q_delete c st collection (FilterSelector (build_filter f)) = (Inr (), st'))"
proof -
  from assms obtain c pre_info st1 post_info where
    c: "client db = Some c"
    and pre: "q_get_collection c st collection = Inr pre_info"
    and d1: "delete_by_ids c collection ids st = (Inr (), st1)"
    and d2: "delete_by_filter build_filter c collection filters st1 = (Inr (), st')"
    and post: "q_get_collection c st' collection = Inr post_info"
    and n: "n = max 0 (or_zero (points_count pre_info) - or_zero (points_count post_info))"
    by (rule delete_Inr_cases)
  have only_filter: "q_delete c st collection (FilterSelector (build_filter f)) = (Inr (), st')"
    if "ids = None" "filters = Some f" "f \<noteq> []" for f
  proof -
    from d1 that(1) have "st1 = st"
      by (simp add: delete_by_ids_absent)
    with d2 that(2,3) show ?thesis
      by (cases f) (auto simp: delete_by_filter_def split: sum.splits prod.splits)
  qed
  from n have "0 \<le> n" by simp
  with c pre post n only_filter show ?thesis
    by (intro exI [of _ c] exI [of _ pre_info] exI [of _ post_info]) simp
qed

theorem delete_count_is_clamped_difference_witness:
  "delete id (qdrant_with mem_client) ''docs'' None (Some [(''source'', ''test'')]) docs_service
     = (Inr 2, [(''docs'', [(''q3'', [(''source'', ''react'')])])])
   \<and> mem_get_collection docs_service ''docs''
       = Inr \<lparr> config_params_vectors = VectorParams 384 COSINE, points_count = Some 3 \<rparr>
   \<and> mem_get_collection [(''docs'', [(''q3'', [(''source'', ''react'')])])] ''docs''
       = Inr \<lparr> config_params_vectors = VectorParams 384 COSINE, points_count = Some 1 \<rparr>"
proof -
  have run: "delete id (qdrant_with mem_client) ''docs'' None (Some [(''source'', ''test'')]) docs_service
     = (Inr 2, [(''docs'', [(''q3'', [(''source'', ''react'')])])])"
    by (simp add: delete_def delete_by_ids_def delete_by_filter_def qdrant_with_def
        new_qdrant_def QdrantVectorDB_init_def mem_client_def mem_get_collection_def
        mem_delete_def docs_service_def or_zero_def)
  from delete_count_is_clamped_difference [OF run]
  obtain c pre_info post_info where
    "client (qdrant_with mem_client) = Some c"
    "q_get_collection c docs_service ''docs'' = Inr pre_info"
    "q_get_collection c [(''docs'', [(''q3'', [(''source'', ''react'')])])] ''docs'' = Inr post_info"
    "(2::int) = max 0 (or_zero (points_count pre_info) - or_zero (points_count post_info))"
    by blast
  then show ?thesis
    using run
    by (simp add: qdrant_with_def mem_client_def mem_get_collection_def docs_service_def)
qed

text \<open>
  The clamp at zero at work: with another writer adding three points while two are deleted,
  the count after the delete exceeds the count before it and the adapter reports 0.
\<close>

lemma delete_count_clamped_example:
  "fst (delete id (qdrant_with busy_client) ''docs'' None (Some [(''source'', ''test'')]) docs_service)
     = Inr 0"
  by (simp add: delete_def delete_by_ids_def delete_by_filter_def qdrant_with_def
      new_qdrant_def QdrantVectorDB_init_def busy_client_def mem_get_collection_def
      mem_delete_def docs_service_def or_zero_def)

lemma delete_error_kinds:
  assumes "delete build_filter db collection ids filters st = (Inl e, st')"
    and "ids \<noteq> None \<or> filters \<noteq> None"
  shows "e = none_has_no_attribute ''get_collection'' \<or> (\<exists>failure. e = BackendError failure)"
proof (cases "client db")
  case None
  with assms show ?thesis
    by (auto simp: delete_def)
next
  case (Some c)
  show ?thesis
  proof (cases "q_get_collection c st collection")
    case (Inl failure)
    with assms Some show ?thesis
      by (auto simp: delete_def)
  next
    case pre: (Inr pre_info)
    obtain r1 st1 where d1: "delete_by_ids c collection ids st = (r1, st1)"
      by (cases "delete_by_ids c collection ids st")
    show ?thesis
    proof (cases r1)
      case (Inl e1)
      with assms Some pre d1 have "e = e1"
        by (auto simp: delete_def)
      with d1 Inl have "delete_by_ids c collection ids st = (Inl e, st1)"
        by simp
      from delete_by_ids_error [OF this] show ?thesis
        by simp
    next
      case r1: (Inr u1)
      obtain r2 st2 where d2: "delete_by_filter build_filter c collection filters st1 = (r2, st2)"
        by (cases "delete_by_filter build_filter c collection filters st1")
      show ?thesis
      proof (cases r2)
        case (Inl e2)
        with assms Some pre d1 r1 d2 have "e = e2"
          by (auto simp: delete_def)
        with d2 Inl have "delete_by_filter build_filter c collection filters st1 = (Inl e, st2)"
          by simp
        from delete_by_filter_error [OF this] show ?thesis
          by simp
      next
        case (Inr u2)
        with assms Some pre d1 r1 d2 show ?thesis
          by (auto simp: delete_def Let_def split: sum.splits)
      qed
    qed
  qed
qed

text \<open>
  C8. A delete in which both \<open>ids\<close> and \<open>filters\<close> are absent raises
  \<^verbatim>\<open>ValueError\<close> (the contract's InvalidArgument) and leaves the state of the service
  as it was; a delete with at least one of them supplied never raises a
  \<^verbatim>\<open>ValueError\<close>.
\<close>

theorem delete_requires_ids_or_filters:
  "delete build_filter db collection None None st
     = (Inl (ValueError ''Either ids or filters must be provided''), st)
   \<and> (ids \<noteq> None \<or> filters \<noteq> None \<longrightarrow>
        (\<forall>m. fst (delete build_filter db collection ids filters st) \<noteq> Inl (ValueError m)))"
proof (intro conjI impI allI)
  show "delete build_filter db collection None None st
     = (Inl (ValueError ''Either ids or filters must be provided''), st)"
    by (simp add: delete_def)
next
  fix m
  assume supplied: "ids \<noteq> None \<or> filters \<noteq> None"
  show "fst (delete build_filter db collection ids filters st) \<noteq> Inl (ValueError m)"
  proof
    assume "fst (delete build_filter db collection ids filters st) = Inl (ValueError m)"
    then obtain st' where
      "delete build_filter db collection ids filters st = (Inl (ValueError m), st')"
      by (cases "delete build_filter db collection ids filters st") simp
    from delete_error_kinds [OF this supplied] show False
      by (auto simp: none_has_no_attribute_def)
  qed
qed

theorem delete_requires_ids_or_filters_witness:
  "delete id (qdrant_with mem_client) ''docs'' None None docs_service
     = (Inl (ValueError ''Either ids or filters must be provided''), docs_service)
   \<and> Some [''q1''] \<noteq> (None :: string list option)
   \<and> fst (delete id (qdrant_with mem_client) ''docs'' (Some [''q1'']) None docs_service) = Inr 1
   \<and> fst (delete id (qdrant_with mem_client) ''docs'' (Some [''q1'']) None docs_service)
       \<noteq> Inl (ValueError ''Either ids or filters must be provided'')"
proof -
  note guard = delete_requires_ids_or_filters
    [of id "qdrant_with mem_client" "''docs''" docs_service "Some [''q1'']" None, THEN conjunct1]
  note passes = delete_requires_ids_or_filters
    [of id "qdrant_with mem_client" "''docs''" docs_service "Some [''q1'']" None,
     THEN conjunct2, THEN mp, THEN spec, of "''Either ids or filters must be provided''"]
  have run: "fst (delete id (qdrant_with mem_client) ''docs'' (Some [''q1'']) None docs_service) = Inr 1"
    by (simp add: delete_def delete_by_ids_def delete_by_filter_def qdrant_with_def
        new_qdrant_def QdrantVectorDB_init_def mem_client_def mem_get_collection_def
        mem_delete_def docs_service_def or_zero_def)
  from guard passes run show ?thesis
    by simp
qed

text \<open>
  C10. \<^verbatim>\<open>get_collection_info\<close> of the remote adapter never raises and returns
  \<^verbatim>\<open>None\<close> on every failure inside its \<^verbatim>\<open>try\<close>: whatever the client's failure is
  (a collection that does not exist, a service that cannot be reached), when the client
  is absent, and when the vector configuration has an unexpected shape. A missing
  collection and an unavailable backend therefore give the same result.
\<close>

theorem get_collection_info_none_on_every_failure:
  "(\<forall>e. get_collection_info_try db st nm = Inl e \<longrightarrow> get_collection_info db st nm = Inr None)
   \<and> (\<forall>c failure. client db = Some c \<and> q_get_collection c st nm = Inl failure \<longrightarrow>
         get_collection_info db st nm = Inr None)
   \<and> (client db = None \<longrightarrow> get_collection_info db st nm = Inr None)
   \<and> (\<forall>e. get_collection_info db st nm \<noteq> Inl e)"
  by (auto simp: get_collection_info_def get_collection_info_try_def split: sum.splits)

theorem get_collection_info_none_on_every_failure_witness:
  "q_get_collection mem_client docs_service ''missing'' = Inl (UnexpectedResponse 404 ''Not found'')
   \<and> q_get_collection unreachable_client docs_service ''docs''
       = Inl (ConnectionFailure ''Connection refused'')
   \<and> get_collection_info (qdrant_with mem_client) docs_service ''missing'' = Inr None
   \<and> get_collection_info (qdrant_with unreachable_client) docs_service ''docs'' = Inr None"
proof -
  have f1: "client (qdrant_with mem_client) = Some mem_client
            \<and> q_get_collection mem_client docs_service ''missing''
                = Inl (UnexpectedResponse 404 ''Not found'')"
    by (simp add: qdrant_with_def mem_client_def mem_get_collection_def docs_service_def)
  have f2: "client (qdrant_with unreachable_client) = Some unreachable_client
            \<and> q_get_collection unreachable_client docs_service ''docs''
                = Inl (ConnectionFailure ''Connection refused'')"
    by (simp add: qdrant_with_def unreachable_client_def)
  note r1 = get_collection_info_none_on_every_failure
    [of "qdrant_with mem_client" docs_service "''missing''",
     THEN conjunct2, THEN conjunct1, THEN spec, THEN spec, THEN mp, OF f1]
  note r2 = get_collection_info_none_on_every_failure
    [of "qdrant_with unreachable_client" docs_service "''docs''",
     THEN conjunct2, THEN conjunct1, THEN spec, THEN spec, THEN mp, OF f2]
  from f1 f2 r1 r2 show ?thesis
    by simp
qed

text \<open>On a collection that exists the same call returns its information.\<close>

lemma get_collection_info_example:
  "get_collection_info (qdrant_with mem_client) docs_service ''docs''
     = Inr (Some \<lparr> info_name = ''docs'', info_dimension = 384,
                    info_vector_count = Some 3, info_distance_metric = ''cosine'' \<rparr>)"
  by (simp add: get_collection_info_def get_collection_info_try_def qdrant_with_def
      mem_client_def mem_get_collection_def docs_service_def lower_def lower_char_def)

subsection \<open>Operations before initialize\<close>

text \<open>
  C6 as stated fails: the remote adapter as its constructor leaves it has no client,
  and \<^verbatim>\<open>get_collection_info\<close> on it raises nothing at all; it returns \<^verbatim>\<open>None\<close>.
\<close>

theorem get_collection_info_before_initialize_counterexample:
  "client (new_qdrant :: (mem_service, (string \<times> string) list) AsyncQdrantClient QdrantVectorDB) = None
   \<and> get_collection_info
         (new_qdrant :: (mem_service, (string \<times> string) list) AsyncQdrantClient QdrantVectorDB)
         docs_service ''docs''
       = Inr None"
  by (simp add: get_collection_info_def get_collection_info_try_def new_qdrant_def
      QdrantVectorDB_init_def)

text \<open>
  C6, amended. Before \<^verbatim>\<open>initialize()\<close> has stored a client, the data operations of
  the adapters whose code is given reach no backend and leave its state as it is, and
  none of them raises a dedicated not-initialised error: the remote
  \<^verbatim>\<open>get_collection_info\<close> returns \<^verbatim>\<open>None\<close>; the remote \<^verbatim>\<open>delete\<close> raises
  \<^verbatim>\<open>ValueError\<close> when \<open>ids\<close> and \<open>filters\<close> are both absent and otherwise fails with
  Python's \<^verbatim>\<open>AttributeError\<close> on the absent client; the embedded
  \<^verbatim>\<open>create_collection\<close> fails with that \<^verbatim>\<open>AttributeError\<close> as well.
\<close>

theorem operations_before_initialize:
  assumes "client qdb = None" and "client' cdb = None"
  shows "get_collection_info qdb st nm = Inr None
    \<and> delete build_filter qdb nm None None st
        = (Inl (ValueError ''Either ids or filters must be provided''), st)
    \<and> (ids \<noteq> None \<or> filters \<noteq> None \<longrightarrow>
         delete build_filter qdb nm ids filters st
           = (Inl (none_has_no_attribute ''get_collection''), st))
    \<and> create_collection cdb nm dimension metric cst
        = (Inl (none_has_no_attribute ''create_collection''), cst)"
  using assms
  by (auto simp: get_collection_info_def get_collection_info_try_def delete_def
      create_collection_def)

theorem operations_before_initialize_witness:
  "client (new_qdrant :: (mem_service, (string \<times> string) list) AsyncQdrantClient QdrantVectorDB) = None
   \<and> client' (new_chroma :: mem_store ClientAPI ChromaVectorDB) = None
   \<and> delete id (new_qdrant :: (mem_service, (string \<times> string) list) AsyncQdrantClient QdrantVectorDB)
        ''docs'' (Some [''q1'']) None docs_service
       = (Inl (none_has_no_attribute ''get_collection''), docs_service)
   \<and> create_collection (new_chroma :: mem_store ClientAPI ChromaVectorDB) ''docs'' 384 ''cosine'' []
       = (Inl (none_has_no_attribute ''create_collection''), [])
   \<and> (\<forall>m. none_has_no_attribute ''get_collection'' \<noteq> ValueError m)"
proof -
  have q: "client (new_qdrant :: (mem_service, (string \<times> string) list) AsyncQdrantClient QdrantVectorDB) = None"
    by (simp add: new_qdrant_def QdrantVectorDB_init_def)
  have c: "client' (new_chroma :: mem_store ClientAPI ChromaVectorDB) = None"
    by (simp add: new_chroma_def ChromaVectorDB_init_def)
  note ops = operations_before_initialize
    [OF q c, of docs_service "''docs''" id "Some [''q1'']" None 384 "''cosine''" "[]"]
  from q c ops show ?thesis
    by (simp add: none_has_no_attribute_def)
qed

subsection \<open>Embedded adapter: creating a collection\<close>

lemma lower_examples:
  "lower ''manhattan'' = ''manhattan''"
  "lower ''COSINE'' = ''cosine''"
  "lower ''Euclidean'' = ''euclidean''"
  by (simp_all add: lower_def lower_char_def)

text \<open>
  C2 as stated fails: creating a collection with the metric \<^verbatim>\<open>manhattan\<close> succeeds on
  the embedded adapter and stores the metric \<^verbatim>\<open>cosine\<close>; the remote adapter maps the
  same string to \<^verbatim>\<open>Distance.COSINE\<close>.
\<close>

theorem create_collection_unknown_metric_counterexample:
  "create_collection (chroma_with mem_chroma) ''docs'' 384 ''manhattan'' []
     = (Inr (), [(''docs'', [(''hnsw:space'', MStr ''cosine''), (''dimension'', MInt 384)])])
   \<and> distance_metric_val ''manhattan'' = COSINE"
  by (simp add: create_collection_def chroma_with_def new_chroma_def ChromaVectorDB_init_def
      mem_chroma_def mapped_metric_def metric_map_def distance_metric_val_def distance_map_def
      lower_examples)

text \<open>
  C2, amended. For every createCollection call whose metric string, lower-cased, is
  outside \<open>{cosine, euclidean, dot}\<close>, no error is raised for the metric: the embedded
  adapter maps it to \<^verbatim>\<open>cosine\<close> and the remote adapter to \<^verbatim>\<open>Distance.COSINE\<close>, and
  the embedded \<^verbatim>\<open>create_collection\<close> does exactly what it does for the metric
  \<^verbatim>\<open>cosine\<close>.
\<close>

theorem unknown_metric_defaults_to_cosine:
  assumes "lower metric \<notin> {''cosine'', ''euclidean'', ''dot''}"
  shows "mapped_metric metric = ''cosine''
    \<and> distance_metric_val metric = COSINE
    \<and> create_collection db nm dimension metric st = create_collection db nm dimension ''cosine'' st"
proof -
  from assms have m: "mapped_metric metric = ''cosine''"
    by (simp add: mapped_metric_def metric_map_def)
  from assms have d: "distance_metric_val metric = COSINE"
    by (simp add: distance_metric_val_def distance_map_def)
  from m have "create_collection db nm dimension metric st
                 = create_collection db nm dimension ''cosine'' st"
    by (simp add: create_collection_def mapped_metric_standard)
  with m d show ?thesis
    by simp
qed

theorem unknown_metric_defaults_to_cosine_witness:
  "lower ''manhattan'' \<notin> {''cosine'', ''euclidean'', ''dot''}
   \<and> mapped_metric ''manhattan'' = ''cosine''
   \<and> distance_metric_val ''manhattan'' = COSINE
   \<and> create_collection (chroma_with mem_chroma) ''docs'' 384 ''manhattan'' []
       = create_collection (chroma_with mem_chroma) ''docs'' 384 ''cosine'' []"
proof -
  have h: "lower ''manhattan'' \<notin> {''cosine'', ''euclidean'', ''dot''}"
    by (simp add: lower_examples)
  note r = unknown_metric_defaults_to_cosine
    [OF h, of "chroma_with mem_chroma" "''docs''" 384 "[]"]
  from h r show ?thesis
    by (intro conjI) (elim conjE, assumption)+
qed

lemma mapped_metric_cases:
  "mapped_metric metric =
     (if lower metric = ''euclidean'' then ''l2''
      else if lower metric = ''dot'' then ''ip''
      else ''cosine'')"
  by (simp add: mapped_metric_def metric_map_def)

lemma interface_metric_mapped:
  "interface_metric (mapped_metric metric) =
     Some (if lower metric \<in> {''cosine'', ''euclidean'', ''dot''} then lower metric else ''cosine'')"
  by (simp add: mapped_metric_cases interface_metric_def metric_map_def)

text \<open>
  C7. On the embedded adapter, a \<^verbatim>\<open>create_collection\<close> that succeeds has handed the
  engine a metadata dictionary holding the dimension and the metric (under ChromaDB's
  name for it: \<open>cosine\<close>, \<open>l2\<close> for euclidean, \<open>ip\<close> for dot), and on an engine that keeps
  the metadata of the collections it creates, the collection information read afterwards
  carries exactly that dimension and, for every metric of the closed set, exactly the
  metric the collection was created with, both taken from the metadata. For a metric
  outside the closed set the metric stored, and read back, is cosine.
\<close>

theorem chroma_schema_round_trip:
  assumes "client' db = Some c"
    and "keeps_metadata c"
    and "create_collection db nm dimension metric st = (Inr (), st')"
  shows "c_create_collection c st nm
           [(''hnsw:space'', MStr (mapped_metric metric)), (''dimension'', MInt dimension)]
           = (Inr (), st')
    \<and> (lower metric = ''cosine'' \<longrightarrow> mapped_metric metric = ''cosine'')
    \<and> (lower metric = ''euclidean'' \<longrightarrow> mapped_metric metric = ''l2'')
    \<and> (lower metric = ''dot'' \<longrightarrow> mapped_metric metric = ''ip'')
    \<and> (\<exists>coll info.
          c_get_collection c st' nm = Inr coll
          \<and> map_of (coll_metadata coll) ''dimension'' = Some (MInt dimension)
          \<and> map_of (coll_metadata coll) ''hnsw:space'' = Some (MStr (mapped_metric metric))
          \<and> chroma_get_collection_info c st' nm = Some info
          \<and> info_name info = nm
          \<and> info_dimension info = dimension
          \<and> (lower metric \<in> {''cosine'', ''euclidean'', ''dot''} \<longrightarrow>
                info_distance_metric info = lower metric)
          \<and> (metric \<in> {''cosine'', ''euclidean'', ''dot''} \<longrightarrow>
                info_distance_metric info = metric)
          \<and> (lower metric \<notin> {''cosine'', ''euclidean'', ''dot''} \<longrightarrow>
                info_distance_metric info = ''cosine''))"
proof -
  let ?md = "[(''hnsw:space'', MStr (mapped_metric metric)), (''dimension'', MInt dimension)]"
  let ?read = "if lower metric \<in> {''cosine'', ''euclidean'', ''dot''} then lower metric else ''cosine''"
  from assms(1,3) have created: "c_create_collection c st nm ?md = (Inr (), st')"
    by (auto simp: create_collection_def Let_def split: sum.splits prod.splits)
  with assms(2) obtain coll where
    coll: "c_get_collection c st' nm = Inr coll" "coll_metadata coll = ?md"
    unfolding keeps_metadata_def by blast
  then have info: "chroma_get_collection_info c st' nm
               = Some \<lparr> info_name = nm, info_dimension = dimension,
                        info_vector_count = Some (coll_count coll),
                        info_distance_metric = ?read \<rparr>"
    by (simp add: chroma_get_collection_info_def interface_metric_mapped)
  have same: "lower metric = metric" if "metric \<in> {''cosine'', ''euclidean'', ''dot''}"
    using that by (auto simp: lower_def lower_char_def)
  have stored: "(lower metric = ''cosine'' \<longrightarrow> mapped_metric metric = ''cosine'')
    \<and> (lower metric = ''euclidean'' \<longrightarrow> mapped_metric metric = ''l2'')
    \<and> (lower metric = ''dot'' \<longrightarrow> mapped_metric metric = ''ip'')"
    by (simp add: mapped_metric_cases)
  have read_back: "\<exists>coll info.
          c_get_collection c st' nm = Inr coll
          \<and> map_of (coll_metadata coll) ''dimension'' = Some (MInt dimension)
          \<and> map_of (coll_metadata coll) ''hnsw:space'' = Some (MStr (mapped_metric metric))
          \<and> chroma_get_collection_info c st' nm = Some info
          \<and> info_name info = nm
          \<and> info_dimension info = dimension
          \<and> (lower metric \<in> {''cosine'', ''euclidean'', ''dot''} \<longrightarrow>
                info_distance_metric info = lower metric)
          \<and> (metric \<in> {''cosine'', ''euclidean'', ''dot''} \<longrightarrow>
                info_distance_metric info = metric)
          \<and> (lower metric \<notin> {''cosine'', ''euclidean'', ''dot''} \<longrightarrow>
                info_distance_metric info = ''cosine'')"
    using coll info same
    by (intro exI [of _ coll]
        exI [of _ "\<lparr> info_name = nm, info_dimension = dimension,
                     info_vector_count = Some (coll_count coll),
                     info_distance_metric = ?read \<rparr>"]) auto
  from created stored read_back show ?thesis
    by (intro conjI) (elim conjE, assumption)+
qed

lemma mem_chroma_keeps_metadata: "keeps_metadata mem_chroma"
  by (auto simp: keeps_metadata_def mem_chroma_def split: option.splits)

theorem chroma_schema_round_trip_witness:
  "client' (chroma_with mem_chroma) = Some mem_chroma
   \<and> keeps_metadata mem_chroma
   \<and> ''euclidean'' \<in> {''cosine'', ''euclidean'', ''dot''}
   \<and> create_collection (chroma_with mem_chroma) ''test_docs'' 384 ''euclidean'' []
       = (Inr (), [(''test_docs'', [(''hnsw:space'', MStr ''l2''), (''dimension'', MInt 384)])])
   \<and> (\<exists>info.
          chroma_get_collection_info mem_chroma
              [(''test_docs'', [(''hnsw:space'', MStr ''l2''), (''dimension'', MInt 384)])]
              ''test_docs'' = Some info
          \<and> info_dimension info = 384
          \<and> info_distance_metric info = ''euclidean'')
   \<and> chroma_get_collection_info mem_chroma
        [(''test_docs'', [(''hnsw:space'', MStr ''l2''), (''dimension'', MInt 384)])] ''test_docs''
       = Some \<lparr> info_name = ''test_docs'', info_dimension = 384,
                info_vector_count = Some 0, info_distance_metric = ''euclidean'' \<rparr>"
proof -
  have h4: "chroma_get_collection_info mem_chroma
        [(''test_docs'', [(''hnsw:space'', MStr ''l2''), (''dimension'', MInt 384)])] ''test_docs''
       = Some \<lparr> info_name = ''test_docs'', info_dimension = 384,
                info_vector_count = Some 0, info_distance_metric = ''euclidean'' \<rparr>"
    by (simp add: chroma_get_collection_info_def mem_chroma_def interface_metric_def
        metric_map_def)
  have h1: "client' (chroma_with mem_chroma) = Some mem_chroma"
    by (simp add: chroma_with_def)
  have h3: "create_collection (chroma_with mem_chroma) ''test_docs'' 384 ''euclidean'' []
       = (Inr (), [(''test_docs'', [(''hnsw:space'', MStr ''l2''), (''dimension'', MInt 384)])])"
    by (simp add: create_collection_def chroma_with_def mem_chroma_def mapped_metric_standard)
  have h5: "''euclidean'' \<in> {''cosine'', ''euclidean'', ''dot''}"
    by simp
  from chroma_schema_round_trip [OF h1 mem_chroma_keeps_metadata h3]
  obtain coll info where
    i1: "chroma_get_collection_info mem_chroma
              [(''test_docs'', [(''hnsw:space'', MStr ''l2''), (''dimension'', MInt 384)])]
              ''test_docs'' = Some info"
    and i2: "info_dimension info = 384"
    and i3: "''euclidean'' \<in> {''cosine'', ''euclidean'', ''dot''} \<longrightarrow>
                info_distance_metric info = ''euclidean''"
    by blast
  from i3 h5 have i4: "info_distance_metric info = ''euclidean''"
    by (rule mp)
  from i1 i2 i4 have ex: "\<exists>info.
          chroma_get_collection_info mem_chroma
              [(''test_docs'', [(''hnsw:space'', MStr ''l2''), (''dimension'', MInt 384)])]
              ''test_docs'' = Some info
          \<and> info_dimension info = 384
          \<and> info_distance_metric info = ''euclidean''"
    by (intro exI [of _ info] conjI)
  from h1 mem_chroma_keeps_metadata h5 h3 ex h4 show ?thesis
    by (intro conjI)
qed

subsection \<open>Hybrid scorer\<close>

lemma score_of_absent: "i \<notin> hit_id ` set hits \<Longrightarrow> score_of hits i = 0"
proof -
  assume "i \<notin> hit_id ` set hits"
  then have "find (\<lambda>h. hit_id h = i) hits = None"
    by (auto simp: find_None_iff)
  then show ?thesis
    by (simp add: score_of_def)
qed

lemma fuse_has_every_id:
  assumes "i \<in> hit_id ` set vector_hits \<union> hit_id ` set keyword_hits"
  shows "\<exists>h \<in> set (fuse w_v w_k vector_hits keyword_hits).
           hit_id h = i
           \<and> hit_score h = w_v * score_of vector_hits i + w_k * score_of keyword_hits i"
proof -
  let ?h = "\<lparr> hit_id = i,
              hit_score = combined w_v w_k vector_hits keyword_hits i,
              hit_payload = payload_of vector_hits keyword_hits i \<rparr>"
  from assms have "i \<in> set (merged_ids vector_hits keyword_hits)"
    by (auto simp: merged_ids_def)
  then have "?h \<in> set (fuse w_v w_k vector_hits keyword_hits)"
    by (auto simp: fuse_def set_sort_ranked)
  moreover have "hit_id ?h = i
      \<and> hit_score ?h = w_v * score_of vector_hits i + w_k * score_of keyword_hits i"
    by (simp add: combined_def)
  ultimately show ?thesis
    by (intro bexI [of _ ?h])
qed

lemma fuse_example:
  "fuse search_vector_weight search_keyword_weight example_vector_hits example_keyword_hits
     = [\<lparr> hit_id = ''a'', hit_score = 0.78, hit_payload = Some () \<rparr>,
        \<lparr> hit_id = ''b'', hit_score = 0.24, hit_payload = Some () \<rparr>]"
  by (simp add: fuse_def merged_ids_def combined_def score_of_def payload_of_def
      ranks_before_def search_vector_weight_def search_keyword_weight_def
      example_vector_hits_def example_keyword_hits_def)

text \<open>
  C3. For every id of either input list the fused list has an entry whose score is
  \<open>w_v * vectorScore(id) + w_k * keywordScore(id)\<close>, the score of an id missing from a
  list being exactly zero; the default weights are 0.7 and 0.3; and for the vector
  results \<open>[a 0.9]\<close> and the keyword results \<open>[a 0.5, b 0.8]\<close> the scorer with the
  default weights returns \<open>[a 0.78, b 0.24]\<close> in that order, for every limit of at least
  two and every floor of at most 0.24.
\<close>

theorem hybrid_scorer_combines:
  "(\<forall>i \<in> hit_id ` set vector_hits \<union> hit_id ` set keyword_hits.
      \<exists>h \<in> set (fuse w_v w_k vector_hits keyword_hits).
        hit_id h = i
        \<and> hit_score h = w_v * score_of vector_hits i + w_k * score_of keyword_hits i)
   \<and> (\<forall>i. i \<notin> hit_id ` set vector_hits \<longrightarrow> score_of vector_hits i = 0)
   \<and> (\<forall>i. i \<notin> hit_id ` set keyword_hits \<longrightarrow> score_of keyword_hits i = 0)
   \<and> search_vector_weight = 0.7 \<and> search_keyword_weight = 0.3
   \<and> (2 \<le> limit \<and> floor_score \<le> 0.24 \<longrightarrow>
        map (\<lambda>h. (hit_id h, hit_score h))
          (hybrid_search search_vector_weight search_keyword_weight limit floor_score
             example_vector_hits example_keyword_hits)
        = [(''a'', 0.78), (''b'', 0.24)])"
proof -
  have ex: "map (\<lambda>h. (hit_id h, hit_score h))
          (hybrid_search search_vector_weight search_keyword_weight limit floor_score
             example_vector_hits example_keyword_hits)
        = [(''a'', 0.78), (''b'', 0.24)]"
    if "2 \<le> limit" "floor_score \<le> 0.24"
    using that by (simp add: hybrid_search_def fuse_example)
  have ex': "2 \<le> limit \<and> floor_score \<le> 0.24 \<longrightarrow>
        map (\<lambda>h. (hit_id h, hit_score h))
          (hybrid_search search_vector_weight search_keyword_weight limit floor_score
             example_vector_hits example_keyword_hits)
        = [(''a'', 0.78), (''b'', 0.24)]"
    using ex by (intro impI) (elim conjE)
  have all: "\<forall>i \<in> hit_id ` set vector_hits \<union> hit_id ` set keyword_hits.
      \<exists>h \<in> set (fuse w_v w_k vector_hits keyword_hits).
        hit_id h = i
        \<and> hit_score h = w_v * score_of vector_hits i + w_k * score_of keyword_hits i"
    using fuse_has_every_id by (intro ballI)
  have zv: "\<forall>i. i \<notin> hit_id ` set vector_hits \<longrightarrow> score_of vector_hits i = 0"
    using score_of_absent by (intro allI impI)
  have zk: "\<forall>i. i \<notin> hit_id ` set keyword_hits \<longrightarrow> score_of keyword_hits i = 0"
    using score_of_absent by (intro allI impI)
  have w: "search_vector_weight = 0.7" "search_keyword_weight = 0.3"
    by (simp_all add: search_vector_weight_def search_keyword_weight_def)
  from all zv zk w ex' show ?thesis
    by (intro conjI)
qed

theorem hybrid_scorer_combines_witness:
  "''b'' \<in> hit_id ` set example_vector_hits \<union> hit_id ` set example_keyword_hits
   \<and> ''b'' \<notin> hit_id ` set example_vector_hits
   \<and> score_of example_vector_hits ''b'' = 0
   \<and> (\<exists>h \<in> set (fuse (7 / 10) (3 / 10) example_vector_hits example_keyword_hits).
         hit_id h = ''b''
         \<and> hit_score h = 7 / 10 * score_of example_vector_hits ''b''
                          + 3 / 10 * score_of example_keyword_hits ''b'')
   \<and> (2::nat) \<le> 10 \<and> (0::real) \<le> 0.24
   \<and> map (\<lambda>h. (hit_id h, hit_score h))
        (hybrid_search search_vector_weight search_keyword_weight 10 0
           example_vector_hits example_keyword_hits)
      = [(''a'', 0.78), (''b'', 0.24)]"
proof -
  note inst = hybrid_scorer_combines
    [of example_vector_hits example_keyword_hits "7 / 10" "3 / 10" 10 0]
  have in_either: "''b'' \<in> hit_id ` set example_vector_hits \<union> hit_id ` set example_keyword_hits"
    by (simp add: example_vector_hits_def example_keyword_hits_def)
  have not_vector: "''b'' \<notin> hit_id ` set example_vector_hits"
    by (simp add: example_vector_hits_def)
  have bounds: "(2::nat) \<le> 10 \<and> (0::real) \<le> 0.24"
    by simp
  note entry = inst [THEN conjunct1, THEN bspec, OF in_either]
  note zero = inst [THEN conjunct2, THEN conjunct1, THEN spec, THEN mp, OF not_vector]
  note example = inst [THEN conjunct2, THEN conjunct2, THEN conjunct2, THEN conjunct2,
                      THEN conjunct2, THEN mp, OF bounds]
  from in_either not_vector zero entry bounds example show ?thesis
    by (intro conjI) (elim conjE, assumption)+
qed


end
